theory Spec2Isabelle
  imports Complex_Main
begin

section \<open>Numbers, errors and time\<close>

text \<open>
  The backend (\<^verbatim>\<open>crypto-tracker-backend/app.py\<close>) computes with Python numbers.
  They are modelled as \<^typ>\<open>real\<close>: the arithmetic of the model is exact, so a
  statement proved here is a statement about the formulas of the code, not about
  the last bits of a binary float. Every Python exception that the modelled code
  can raise is a value of \<open>py_error\<close>, and a computation that can raise returns
  \<open>py_error + 'a\<close> (\<open>Inl\<close> is the exception).
\<close>

datatype py_error =
    ZeroDivisionError
  | TypeError
  | NameError string
  | IndexError
  | StatisticsError

definition result_bind :: "py_error + 'a \<Rightarrow> ('a \<Rightarrow> py_error + 'b) \<Rightarrow> py_error + 'b" where
  "result_bind r f = (case r of Inl e \<Rightarrow> Inl e | Inr x \<Rightarrow> f x)"

text \<open>Python's \<^verbatim>\<open>a / b\<close>: raises ZeroDivisionError when \<^verbatim>\<open>b == 0\<close>.\<close>

definition py_div :: "real \<Rightarrow> real \<Rightarrow> py_error + real" where
  "py_div a b = (if b = 0 then Inl ZeroDivisionError else Inr (a / b))"

text \<open>
  Python's \<^verbatim>\<open>round(x, n)\<close> on the exact value: the nearest multiple of \<open>10\<^sup>-\<^sup>n\<close>,
  a tie going to the even one.
\<close>

definition py_round :: "real \<Rightarrow> nat \<Rightarrow> real" where
  "py_round x n =
     (let s = x * 10 ^ n;
          f = \<lfloor>s\<rfloor>;
          d = s - of_int f
      in (if d < 1 / 2 then of_int f
          else if 1 / 2 < d then of_int (f + 1)
          else if even f then of_int f
          else of_int (f + 1)) / 10 ^ n)"

text \<open>
  A naive \<^verbatim>\<open>datetime\<close> is a number of microseconds since 1970-01-01 00:00:00, a
  \<^verbatim>\<open>timedelta\<close> a number of microseconds. \<^verbatim>\<open>START_DATE = datetime(2025, 1, 25)\<close> is
  midnight of day 20113. \<^verbatim>\<open>date.strftime('%d-%m-%Y')\<close>, the key of the price cache,
  names the calendar day; it is modelled by the day number, which it determines.
\<close>

type_synonym datetime = int

definition us_per_day :: int where
  "us_per_day = 86400000000"

definition timedelta_days :: "int \<Rightarrow> int" where
  "timedelta_days n = n * us_per_day"

definition timedelta_weeks :: "int \<Rightarrow> int" where
  "timedelta_weeks n = n * 7 * us_per_day"

definition START_DATE :: datetime where
  "START_DATE = 20113 * us_per_day"

definition date_str :: "datetime \<Rightarrow> int" where
  "date_str d = d div us_per_day"

definition DEFAULT_BTC_INVEST :: real where
  "DEFAULT_BTC_INVEST = 100"

definition DEFAULT_ETH_INVEST :: real where
  "DEFAULT_ETH_INVEST = 50"

definition DEFAULT_BTC_TOTAL :: real where
  "DEFAULT_BTC_TOTAL = 102"

definition DEFAULT_ETH_TOTAL :: real where
  "DEFAULT_ETH_TOTAL = 518 / 10"

section \<open>Price source adapter and price cache\<close>

text \<open>
  \<^verbatim>\<open>price_cache\<close> maps a date key to \<^verbatim>\<open>{'bitcoin': p, 'ethereum': q}\<close>.
  The upstream API is a function from the coin id and the date key to the outcome of
  the request: \<open>RequestFailed\<close> when \<^verbatim>\<open>requests.get\<close> raises, otherwise the status
  code and the number found at \<^verbatim>\<open>data['market_data']['current_price']['usd']\<close>
  (\<open>None\<close> when the body does not parse, a key is missing or the value is null; all
  of these end in \<^verbatim>\<open>fetch_price\<close> returning \<^verbatim>\<open>None\<close>). Within one simulation every
  date is requested at most once, so a function of the date loses nothing.
\<close>

record price_data =
  bitcoin :: real
  ethereum :: real

type_synonym price_cache = "int \<rightharpoonup> price_data"

datatype http_reply = RequestFailed | Reply nat "real option"

type_synonym adapter = "string \<Rightarrow> int \<Rightarrow> http_reply"

definition fetch_price :: "adapter \<Rightarrow> int \<Rightarrow> string \<Rightarrow> real option" where
  "fetch_price net key coin_id =
     (case net coin_id key of
        RequestFailed \<Rightarrow> None
      | Reply status_code usd \<Rightarrow> (if status_code = 200 then usd else None))"

text \<open>Truthiness of what \<^verbatim>\<open>fetch_price\<close> returns: \<^verbatim>\<open>None\<close> and \<^verbatim>\<open>0\<close> are false.\<close>

definition truthy :: "real option \<Rightarrow> bool" where
  "truthy v = (case v of None \<Rightarrow> False | Some x \<Rightarrow> x \<noteq> 0)"

definition get_price_on_date :: "adapter \<Rightarrow> price_cache \<Rightarrow> datetime \<Rightarrow> price_data option \<times> price_cache" where
  "get_price_on_date net cache date =
     (let key = date_str date in
      case cache key of
        Some entry \<Rightarrow> (Some entry, cache)
      | None \<Rightarrow>
          (let btc_price = fetch_price net key ''bitcoin'';
               eth_price = fetch_price net key ''ethereum''
           in if truthy btc_price \<and> truthy eth_price
              then (let entry = \<lparr>bitcoin = the btc_price, ethereum = the eth_price\<rparr>
                    in (Some entry, cache(key \<mapsto> entry)))
              else (None, cache)))"

section \<open>DCA simulator\<close>

text \<open>
  The local variables of \<^verbatim>\<open>simulate_investments\<close>. The loop body is \<open>sim_step\<close>,
  the \<^verbatim>\<open>while current_date <= TODAY\<close> loop is \<open>sim_loop\<close>. \<^verbatim>\<open>TODAY\<close> is a global
  that other functions overwrite, so it is a parameter here.
\<close>

record sim_state =
  btc_total_usd :: real
  eth_total_usd :: real
  btc_held :: real
  eth_held :: real
  current_date :: datetime
  weeks :: nat

definition interval_of :: "string \<Rightarrow> int" where
  "interval_of frequency =
     (if frequency = ''daily'' then timedelta_days 1
      else if frequency = ''weekly'' then timedelta_weeks 1
      else if frequency = ''monthly'' then timedelta_days 30
      else timedelta_weeks 1)"

definition advance :: "int \<Rightarrow> sim_state \<Rightarrow> sim_state" where
  "advance interval s = s\<lparr>current_date := current_date s + interval, weeks := weeks s + 1\<rparr>"

definition buy_btc :: "real \<Rightarrow> price_data \<Rightarrow> sim_state \<Rightarrow> py_error + sim_state" where
  "buy_btc btc_amount pd s =
     result_bind (py_div btc_amount (bitcoin pd)) (\<lambda>q.
       Inr (s\<lparr>btc_held := btc_held s + q,
              btc_total_usd := btc_total_usd s + DEFAULT_BTC_TOTAL\<rparr>))"

definition buy_eth :: "real \<Rightarrow> price_data \<Rightarrow> sim_state \<Rightarrow> py_error + sim_state" where
  "buy_eth eth_amount pd s =
     (if weeks s mod 2 = 0
      then result_bind (py_div eth_amount (ethereum pd)) (\<lambda>q.
             Inr (s\<lparr>eth_held := eth_held s + q,
                    eth_total_usd := eth_total_usd s + DEFAULT_ETH_TOTAL\<rparr>))
      else Inr s)"

definition sim_step :: "adapter \<Rightarrow> int \<Rightarrow> real \<Rightarrow> real \<Rightarrow> price_cache \<Rightarrow> sim_state
    \<Rightarrow> py_error + (price_cache \<times> sim_state)" where
  "sim_step net interval btc_amount eth_amount cache s =
     (case get_price_on_date net cache (current_date s) of
        (None, cache') \<Rightarrow> Inr (cache', advance interval s)
      | (Some pd, cache') \<Rightarrow>
          result_bind (buy_btc btc_amount pd s) (\<lambda>s1.
          result_bind (buy_eth eth_amount pd s1) (\<lambda>s2.
            Inr (cache', advance interval s2))))"

lemma interval_of_pos: "0 < interval_of frequency"
  by (simp add: interval_of_def timedelta_days_def timedelta_weeks_def us_per_day_def)

lemma result_bind_Inr_iff:
  "result_bind r f = Inr y \<longleftrightarrow> (\<exists>x. r = Inr x \<and> f x = Inr y)"
  by (cases r) (simp_all add: result_bind_def)

lemma buy_btc_date: "buy_btc a pd s = Inr s' \<Longrightarrow> current_date s' = current_date s \<and> weeks s' = weeks s"
  by (auto simp: buy_btc_def result_bind_Inr_iff)

lemma buy_eth_date: "buy_eth a pd s = Inr s' \<Longrightarrow> current_date s' = current_date s \<and> weeks s' = weeks s"
  by (auto simp: buy_eth_def result_bind_Inr_iff split: if_splits)

lemma sim_step_date:
  "sim_step net interval a b cache s = Inr (cache', s') \<Longrightarrow>
     current_date s' = current_date s + interval \<and> weeks s' = weeks s + 1"
  by (auto simp: sim_step_def advance_def result_bind_Inr_iff
           split: prod.splits option.splits dest!: buy_btc_date buy_eth_date)

function sim_loop :: "adapter \<Rightarrow> datetime \<Rightarrow> string \<Rightarrow> real \<Rightarrow> real \<Rightarrow> price_cache \<Rightarrow> sim_state
    \<Rightarrow> py_error + (price_cache \<times> sim_state)" where
  "sim_loop net today frequency btc_amount eth_amount cache s =
     (if current_date s \<le> today
      then (case sim_step net (interval_of frequency) btc_amount eth_amount cache s of
              Inl e \<Rightarrow> Inl e
            | Inr (cache', s') \<Rightarrow> sim_loop net today frequency btc_amount eth_amount cache' s')
      else Inr (cache, s))"
  by pat_completeness auto
termination
proof (relation "measure (\<lambda>(net, today, frequency, a, b, cache, s). nat (today - current_date s + 1))")
  show "wf (measure (\<lambda>(net, today, frequency, a, b, cache, s). nat (today - current_date s + 1)))"
    by simp
next
  fix net :: adapter and today :: datetime and frequency :: string
    and btc_amount eth_amount :: real and cache :: price_cache and s :: sim_state
    and x2 :: "price_cache \<times> sim_state" and cache' :: price_cache and s' :: sim_state
  assume le: "current_date s \<le> today"
    and step: "sim_step net (interval_of frequency) btc_amount eth_amount cache s = Inr x2"
    and x2: "(cache', s') = x2"
  from step x2 have "current_date s' = current_date s + interval_of frequency"
    using sim_step_date by metis
  with le interval_of_pos [of frequency]
  show "((net, today, frequency, btc_amount, eth_amount, cache', s'),
         (net, today, frequency, btc_amount, eth_amount, cache, s))
        \<in> measure (\<lambda>(net, today, frequency, a, b, cache, s). nat (today - current_date s + 1))"
    by simp
qed

definition initial_state :: sim_state where
  "initial_state = \<lparr>btc_total_usd = 0, eth_total_usd = 0, btc_held = 0, eth_held = 0,
                    current_date = START_DATE, weeks = 0\<rparr>"

text \<open>
  \<^verbatim>\<open>simulate_investments\<close> returns \<^verbatim>\<open>(btc_total_usd, eth_total_usd, btc_held, eth_held)\<close>;
  the model returns the price cache it leaves behind as well.
\<close>

definition simulate_investments :: "adapter \<Rightarrow> datetime \<Rightarrow> price_cache \<Rightarrow> string \<Rightarrow> real \<Rightarrow> real
    \<Rightarrow> py_error + (price_cache \<times> real \<times> real \<times> real \<times> real)" where
  "simulate_investments net today cache frequency btc_amount eth_amount =
     result_bind (sim_loop net today frequency btc_amount eth_amount cache initial_state)
       (\<lambda>(cache', s). Inr (cache', btc_total_usd s, eth_total_usd s, btc_held s, eth_held s))"

declare sim_loop.simps [simp del]

section \<open>Manual ledger\<close>

text \<open>
  An entry of \<^verbatim>\<open>manual_transactions.json\<close> as \<^verbatim>\<open>add_transaction\<close> stores it: the date
  (\<^verbatim>\<open>datetime.fromisoformat(tx['date'])\<close>), the coin, the amount and the price as
  numbers (\<^verbatim>\<open>add_transaction\<close> converts both with \<^verbatim>\<open>float\<close> and rejects everything
  else), and the type, which old entries lack (\<^verbatim>\<open>tx.get('type', 'buy')\<close>). On such
  entries the \<^verbatim>\<open>try\<close> around each entry in \<^verbatim>\<open>apply_manual_transactions\<close> has
  nothing to catch. The accumulator of the loop is
  \<^verbatim>\<open>(btc_held, eth_held, btc_total_usd, eth_total_usd)\<close>.
\<close>

record transaction =
  tx_date :: datetime
  coin :: string
  amount :: real
  price :: real
  tx_type :: "string option"

definition type_or_buy :: "transaction \<Rightarrow> string" where
  "type_or_buy tx = (case tx_type tx of None \<Rightarrow> ''buy'' | Some t \<Rightarrow> t)"

definition apply_tx :: "real \<times> real \<times> real \<times> real \<Rightarrow> transaction \<Rightarrow> real \<times> real \<times> real \<times> real" where
  "apply_tx acc tx =
     (case acc of (bh, eh, bt, et) \<Rightarrow>
        if coin tx = ''bitcoin''
        then (if type_or_buy tx = ''buy'' then (bh + amount tx, eh, bt + amount tx * price tx, et)
              else if type_or_buy tx = ''sell'' then (bh - amount tx, eh, bt - amount tx * price tx, et)
              else (bh, eh, bt, et))
        else if coin tx = ''ethereum''
        then (if type_or_buy tx = ''buy'' then (bh, eh + amount tx, bt, et + amount tx * price tx)
              else if type_or_buy tx = ''sell'' then (bh, eh - amount tx, bt, et - amount tx * price tx)
              else (bh, eh, bt, et))
        else (bh, eh, bt, et))"

definition apply_manual_transactions :: "transaction list \<Rightarrow> real \<Rightarrow> real \<Rightarrow> real \<Rightarrow> real
    \<Rightarrow> real \<times> real \<times> real \<times> real" where
  "apply_manual_transactions transactions bh eh bt et = foldl apply_tx (bh, eh, bt, et) transactions"

section \<open>Spot prices\<close>

text \<open>
  The outcome of the request for the two spot prices: \<open>SpotFailed\<close> when
  \<^verbatim>\<open>requests.get\<close> raises, otherwise the status code and the two prices of the body
  (\<open>None\<close> when the body does not hold them). \<^verbatim>\<open>get_current_prices\<close> accepts status
  200 only; \<^verbatim>\<open>get_current_prices_cached\<close> calls \<^verbatim>\<open>raise_for_status\<close>, which raises
  from status 400 on. Its first argument is what the Flask cache holds under
  \<^verbatim>\<open>'current_prices'\<close>; writing the fetched prices back to that cache is not modelled.
\<close>

datatype spot_reply = SpotFailed | SpotReply nat "price_data option"

definition get_current_prices :: "spot_reply \<Rightarrow> price_data option" where
  "get_current_prices api =
     (case api of
        SpotFailed \<Rightarrow> None
      | SpotReply status_code body \<Rightarrow> (if status_code = 200 then body else None))"

definition get_current_prices_cached :: "price_data option \<Rightarrow> spot_reply \<Rightarrow> price_data" where
  "get_current_prices_cached cached api =
     (case cached of
        Some prices \<Rightarrow> prices
      | None \<Rightarrow>
          (case (case api of
                   SpotFailed \<Rightarrow> None
                 | SpotReply status_code body \<Rightarrow> (if 400 \<le> status_code then None else body)) of
             Some prices \<Rightarrow> prices
           | None \<Rightarrow>
               (case cached of
                  Some cached_prices \<Rightarrow> cached_prices
                | None \<Rightarrow> \<lparr>bitcoin = 50000, ethereum = 3000\<rparr>)))"

section \<open>Portfolio valuator\<close>

text \<open>
  \<open>percent_if_positive\<close> is the expression
  \<^verbatim>\<open>(gain / invested * 100) if invested > 0 else 0\<close> that the handlers write inline
  wherever they compute a percentage of an invested amount. \<open>portfolio_calc\<close> computes
  the local variables of \<^verbatim>\<open>portfolio()\<close> from the holdings
  \<^verbatim>\<open>(btc_held, eth_held, btc_invested, eth_invested)\<close> and the spot prices,
  \<open>portfolio_jsonify\<close> is the rounding of the response, \<open>portfolio_body\<close> the body of
  the handler's \<^verbatim>\<open>try\<close> and \<open>portfolio\<close> the handler. The rate limiter and the
  response cache in front of the handler are not modelled.
\<close>

definition percent_if_positive :: "real \<Rightarrow> real \<Rightarrow> py_error + real" where
  "percent_if_positive gain invested =
     (if invested > 0 then result_bind (py_div gain invested) (\<lambda>q. Inr (q * 100)) else Inr 0)"

record portfolio_locals =
  btc_value :: real
  eth_value :: real
  total_value :: real
  total_invested :: real
  profit_loss :: real
  btc_percent :: real
  eth_percent :: real
  total_percent :: real

definition portfolio_calc :: "real \<times> real \<times> real \<times> real \<Rightarrow> price_data \<Rightarrow> py_error + portfolio_locals" where
  "portfolio_calc h current_prices =
     (case h of (bh, eh, bi, ei) \<Rightarrow>
        let btc_price = bitcoin current_prices;
            eth_price = ethereum current_prices;
            bv = bh * btc_price;
            ev = eh * eth_price;
            tv = bv + ev;
            ti = bi + ei;
            pl = tv - ti
        in result_bind (percent_if_positive (bv - bi) bi) (\<lambda>bp.
           result_bind (percent_if_positive (ev - ei) ei) (\<lambda>ep.
           result_bind (percent_if_positive pl ti) (\<lambda>tp.
             Inr \<lparr>btc_value = bv, eth_value = ev, total_value = tv, total_invested = ti,
                  profit_loss = pl, btc_percent = bp, eth_percent = ep, total_percent = tp\<rparr>))))"

record portfolio_json =
  json_btc_invested :: real
  json_eth_invested :: real
  json_btc_held :: real
  json_eth_held :: real
  json_btc_value :: real
  json_eth_value :: real
  json_total_value :: real
  json_total_invested :: real
  json_profit_loss :: real
  json_btc_percent_change :: real
  json_eth_percent_change :: real
  json_total_percent_change :: real

definition portfolio_jsonify :: "real \<times> real \<times> real \<times> real \<Rightarrow> portfolio_locals \<Rightarrow> portfolio_json" where
  "portfolio_jsonify h v =
     (case h of (bh, eh, bi, ei) \<Rightarrow>
        \<lparr>json_btc_invested = py_round bi 2,
         json_eth_invested = py_round ei 2,
         json_btc_held = py_round bh 6,
         json_eth_held = py_round eh 6,
         json_btc_value = py_round (btc_value v) 2,
         json_eth_value = py_round (eth_value v) 2,
         json_total_value = py_round (total_value v) 2,
         json_total_invested = py_round (total_invested v) 2,
         json_profit_loss = py_round (profit_loss v) 2,
         json_btc_percent_change = py_round (btc_percent v) 2,
         json_eth_percent_change = py_round (eth_percent v) 2,
         json_total_percent_change = py_round (total_percent v) 2\<rparr>)"

text \<open>
  What a request handler sends: the payload of a success, an error payload that the
  handler returns itself (status and message), or status 500 with the text of an
  exception caught by the handler's outermost \<^verbatim>\<open>except Exception\<close>.
\<close>

datatype 'a response = Ok200 'a | ErrorReply nat string | Error500 py_error

definition portfolio_body :: "adapter \<Rightarrow> datetime \<Rightarrow> price_cache \<Rightarrow> transaction list
    \<Rightarrow> price_data option \<Rightarrow> spot_reply \<Rightarrow> string \<Rightarrow> py_error + portfolio_json" where
  "portfolio_body net today cache ledger cached api frequency =
     result_bind (simulate_investments net today cache frequency DEFAULT_BTC_INVEST DEFAULT_ETH_INVEST)
       (\<lambda>(cache', bi, ei, bh, eh).
          let h = apply_manual_transactions ledger bh eh bi ei;
              current_prices = get_current_prices_cached cached api
          in result_bind (portfolio_calc h current_prices) (\<lambda>v. Inr (portfolio_jsonify h v)))"

definition portfolio :: "adapter \<Rightarrow> datetime \<Rightarrow> price_cache \<Rightarrow> transaction list
    \<Rightarrow> price_data option \<Rightarrow> spot_reply \<Rightarrow> string \<Rightarrow> portfolio_json response" where
  "portfolio net today cache ledger cached api frequency =
     (case portfolio_body net today cache ledger cached api frequency of
        Inl e \<Rightarrow> Error500 e
      | Inr j \<Rightarrow> Ok200 j)"

section \<open>Realized profit and loss of a sell\<close>








section \<open>Risk analytics\<close>

text \<open>
  A point of the history that the analytics handlers read: the keys \<^verbatim>\<open>total_value\<close>,
  \<^verbatim>\<open>btc_price\<close> and \<^verbatim>\<open>eth_price\<close> of each entry.
\<close>

record history_point =
  h_total_value :: real
  h_btc_price :: real
  h_eth_price :: real

text \<open>
  The maximum drawdown loop of \<^verbatim>\<open>get_portfolio_metrics\<close>: \<open>peak\<close> and \<open>max_drawdown\<close>
  are its two variables, the list is what \<^verbatim>\<open>for point in history\<close> still has to visit.
\<close>

fun drawdown_loop :: "real \<Rightarrow> real \<Rightarrow> history_point list \<Rightarrow> py_error + real" where
  "drawdown_loop peak max_drawdown [] = Inr max_drawdown"
| "drawdown_loop peak max_drawdown (point # rest) =
     (let peak' = (if h_total_value point > peak then h_total_value point else peak) in
      result_bind (if peak' > 0 then py_div (peak' - h_total_value point) peak' else Inr 0)
        (\<lambda>drawdown. drawdown_loop peak' (max max_drawdown drawdown) rest))"

definition max_drawdown_of :: "history_point list \<Rightarrow> py_error + real" where
  "max_drawdown_of history =
     (case history of
        [] \<Rightarrow> Inl IndexError
      | first # _ \<Rightarrow> drawdown_loop (h_total_value first) 0 history)"

text \<open>Indexing a list with a non-negative index; out of range raises IndexError.\<close>

definition py_index :: "'a list \<Rightarrow> nat \<Rightarrow> py_error + 'a" where
  "py_index xs i = (if i < length xs then Inr (xs ! i) else Inl IndexError)"

text \<open>
  Value at risk: \<^verbatim>\<open>sorted(daily_returns)[int(len(daily_returns) * 0.05)]\<close> when there
  are at least 20 returns. The pair is \<^verbatim>\<open>(var_95, var_95_dollar)\<close>.
\<close>

definition value_at_risk :: "real list \<Rightarrow> real \<Rightarrow> py_error + (real \<times> real)" where
  "value_at_risk daily_returns portfolio_value =
     (if length daily_returns \<ge> 20
      then result_bind (py_index (sort daily_returns) (nat \<lfloor>real (length daily_returns) * (5 / 100)\<rfloor>))
             (\<lambda>var_95. Inr (var_95, var_95 * portfolio_value))
      else Inr (0, 0))"

section \<open>Advanced analytics endpoints\<close>

text \<open>
  Guarded quotients as the handlers write them:
  \<^verbatim>\<open>a / b if b > 0 else 0\<close>.
\<close>

definition div_if_positive :: "real \<Rightarrow> real \<Rightarrow> py_error + real" where
  "div_if_positive a b = (if b > 0 then py_div a b else Inr 0)"

text \<open>
  \<^verbatim>\<open>statistics.mean\<close> and \<^verbatim>\<open>statistics.stdev\<close> of the standard library: the mean of
  no data and the sample deviation of fewer than two points raise StatisticsError.
\<close>

definition py_mean :: "real list \<Rightarrow> py_error + real" where
  "py_mean xs = (if xs = [] then Inl StatisticsError else py_div (sum_list xs) (real (length xs)))"

definition py_stdev :: "real list \<Rightarrow> py_error + real" where
  "py_stdev xs =
     (if length xs < 2 then Inl StatisticsError
      else result_bind (py_mean xs) (\<lambda>m.
           result_bind (py_div (sum_list (map (\<lambda>x. (x - m)\<^sup>2) xs)) (real (length xs - 1)))
             (\<lambda>variance. Inr (sqrt variance))))"

text \<open>The loop \<^verbatim>\<open>for i in range(1, len(history))\<close> that collects the daily returns.\<close>

fun daily_returns_of :: "history_point list \<Rightarrow> py_error + real list" where
  "daily_returns_of (p # q # later) =
     (if h_total_value p > 0
      then result_bind (py_div (h_total_value q - h_total_value p) (h_total_value p))
             (\<lambda>daily_return.
                result_bind (daily_returns_of (q # later)) (\<lambda>more. Inr (daily_return # more)))
      else daily_returns_of (q # later))"
| "daily_returns_of history = Inr []"

record portfolio_data =
  pd_btc_invested :: real
  pd_eth_invested :: real
  pd_total_value :: real
  pd_total_profit_loss :: real
  pd_total_profit_loss_percent :: real

record analytics =
  an_volatility :: real
  an_annualized_volatility :: real
  an_sharpe_ratio :: real
  an_max_drawdown :: real
  an_value_at_risk_95 :: real
  an_value_at_risk_dollar :: real
  an_daily_return_avg :: real
  an_annualized_return :: real
  an_total_return :: real
  an_days_tracked :: nat
  an_btc_allocation :: real
  an_eth_allocation :: real
  an_diversification_score :: real
  an_portfolio_value :: real
  an_total_invested :: real
  an_unrealized_pnl :: real

text \<open>
  The part of \<^verbatim>\<open>get_portfolio_metrics\<close> after the call of
  \<^verbatim>\<open>generate_portfolio_history(30)\<close>, as a function of what that call returns.
\<close>

definition portfolio_analytics :: "portfolio_data \<Rightarrow> history_point list \<Rightarrow> py_error + analytics response" where
  "portfolio_analytics pd historical_data =
     (if historical_data = [] then Inr (ErrorReply 500 ''Historical data not available'')
      else if length historical_data < 2
      then Inr (ErrorReply 400 ''Insufficient historical data for analysis'')
      else
        result_bind (daily_returns_of historical_data) (\<lambda>daily_returns.
        if daily_returns = [] then Inr (ErrorReply 400 ''Cannot calculate returns with current data'')
        else
          result_bind (if daily_returns \<noteq> [] then py_mean daily_returns else Inr 0) (\<lambda>avg_return.
          result_bind (if length daily_returns > 1 then py_stdev daily_returns else Inr 0) (\<lambda>volatility.
          let annualized_return = avg_return * 365;
              annualized_volatility = volatility * sqrt 365;
              risk_free_rate = 2 / 100
          in
          result_bind (if annualized_volatility > 0
                       then py_div (annualized_return - risk_free_rate) annualized_volatility
                       else Inr 0) (\<lambda>sharpe_ratio.
          result_bind (max_drawdown_of historical_data) (\<lambda>max_drawdown.
          let total_invested = pd_btc_invested pd + pd_eth_invested pd in
          result_bind (div_if_positive (pd_btc_invested pd) total_invested) (\<lambda>btc_allocation.
          result_bind (div_if_positive (pd_eth_invested pd) total_invested) (\<lambda>eth_allocation.
          result_bind (value_at_risk daily_returns (pd_total_value pd)) (\<lambda>(var_95, var_95_dollar).
            Inr (Ok200
              \<lparr>an_volatility = py_round (volatility * 100) 2,
               an_annualized_volatility = py_round (annualized_volatility * 100) 2,
               an_sharpe_ratio = py_round sharpe_ratio 3,
               an_max_drawdown = py_round (max_drawdown * 100) 2,
               an_value_at_risk_95 = py_round (var_95 * 100) 2,
               an_value_at_risk_dollar = py_round var_95_dollar 2,
               an_daily_return_avg = py_round (avg_return * 100) 3,
               an_annualized_return = py_round (annualized_return * 100) 2,
               an_total_return = py_round (pd_total_profit_loss_percent pd) 2,
               an_days_tracked = length historical_data,
               an_btc_allocation = py_round (btc_allocation * 100) 1,
               an_eth_allocation = py_round (eth_allocation * 100) 1,
               an_diversification_score = py_round (1 - (btc_allocation\<^sup>2 + eth_allocation\<^sup>2)) 3,
               an_portfolio_value = pd_total_value pd,
               an_total_invested = total_invested,
               an_unrealized_pnl = pd_total_profit_loss pd\<rparr>))))))))))"

text \<open>
  The names bound at module level in \<^verbatim>\<open>app.py\<close>: its imports, its assignments and its
  function definitions. A global name that is neither in this list nor a builtin raises
  NameError when it is evaluated; \<^verbatim>\<open>generate_portfolio_history\<close> is no Python builtin.
\<close>

definition module_names :: "string list" where
  "module_names =
     [''Flask'', ''jsonify'', ''request'', ''g'', ''Response'', ''stream_with_context'', ''CORS'',
      ''Cache'', ''Limiter'', ''get_remote_address'', ''requests'', ''json'', ''os'', ''time'',
      ''logging'', ''csv'', ''io'', ''threading'', ''smtplib'', ''datetime'', ''timedelta'',
      ''wraps'', ''MIMEText'', ''MIMEMultipart'', ''load_dotenv'',
      ''app'', ''cache'', ''limiter'', ''logger'', ''cors_origins'', ''cors_origins_list'',
      ''START_DATE'', ''TODAY'', ''DEFAULT_BTC_INVEST'', ''DEFAULT_ETH_INVEST'',
      ''DEFAULT_BTC_TOTAL'', ''DEFAULT_ETH_TOTAL'', ''CACHE_FILE'', ''MANUAL_TX_FILE'',
      ''ALERTS_FILE'', ''EMAIL_CONFIG'', ''f'', ''price_cache'',
      ''load_manual_transactions'', ''load_price_alerts'', ''save_price_alerts'',
      ''send_email_alert'', ''check_price_alerts'', ''start_price_alert_monitor'',
      ''get_price_on_date'', ''simulate_investments'', ''apply_manual_transactions'',
      ''calculate_performance_metrics'', ''calculate_weekly_performance'',
      ''monitor_performance'', ''get_current_prices_cached'', ''portfolio'',
      ''portfolio_history'', ''daily_profit_loss'', ''live_profit_loss'', ''add_transaction'',
      ''get_current_prices'', ''calculate_transaction_profit_loss'', ''current_prices'',
      ''transaction_analysis'', ''get_transactions'', ''performance_metrics'', ''validation'',
      ''log_request_info'', ''log_response_info'', ''get_price_alerts'', ''create_price_alert'',
      ''delete_price_alert'', ''test_price_alert'', ''manually_check_alerts'',
      ''export_portfolio_csv'', ''export_transactions_csv'', ''export_history_csv'',
      ''health_check'', ''cache_stats'', ''clear_cache'', ''get_portfolio_metrics'',
      ''get_benchmark_comparison'']"

definition resolve_global :: "string \<Rightarrow> py_error + unit" where
  "resolve_global name = (if name \<in> set module_names then Inr () else Inl (NameError name))"

text \<open>\<^verbatim>\<open>current_prices['bitcoin']\<close> on what \<^verbatim>\<open>get_current_prices()\<close> returned.\<close>

definition subscript_prices :: "price_data option \<Rightarrow> py_error + price_data" where
  "subscript_prices current_prices =
     (case current_prices of None \<Rightarrow> Inl TypeError | Some prices \<Rightarrow> Inr prices)"

text \<open>
  \<^verbatim>\<open>get_portfolio_metrics\<close>: the body of its \<^verbatim>\<open>try\<close>, and the handler with its
  \<^verbatim>\<open>except Exception\<close>. The parameter \<open>historical_data\<close> stands for whatever
  \<^verbatim>\<open>generate_portfolio_history(30)\<close> would return if the name were bound.
\<close>

definition get_portfolio_metrics_body :: "adapter \<Rightarrow> datetime \<Rightarrow> price_cache \<Rightarrow> transaction list
    \<Rightarrow> spot_reply \<Rightarrow> history_point list \<Rightarrow> py_error + analytics response" where
  "get_portfolio_metrics_body net today cache ledger api historical_data =
     result_bind (simulate_investments net today cache ''weekly'' DEFAULT_BTC_INVEST DEFAULT_ETH_INVEST)
       (\<lambda>(cache', bi0, ei0, bh0, eh0).
     case apply_manual_transactions ledger bh0 eh0 bi0 ei0 of (bh, eh, bi, ei) \<Rightarrow>
     result_bind (subscript_prices (get_current_prices api)) (\<lambda>current_prices.
     let bv = bh * bitcoin current_prices;
         ev = eh * ethereum current_prices;
         tv = bv + ev;
         ti = bi + ei;
         tpl = tv - ti
     in
     result_bind (percent_if_positive tpl ti) (\<lambda>total_profit_loss_percent.
     let pd = \<lparr>pd_btc_invested = bi, pd_eth_invested = ei, pd_total_value = tv,
                pd_total_profit_loss = tpl,
                pd_total_profit_loss_percent = total_profit_loss_percent\<rparr>
     in
     result_bind (resolve_global ''generate_portfolio_history'') (\<lambda>_.
       portfolio_analytics pd historical_data))))"

definition get_portfolio_metrics :: "adapter \<Rightarrow> datetime \<Rightarrow> price_cache \<Rightarrow> transaction list
    \<Rightarrow> spot_reply \<Rightarrow> history_point list \<Rightarrow> analytics response" where
  "get_portfolio_metrics net today cache ledger api historical_data =
     (case get_portfolio_metrics_body net today cache ledger api historical_data of
        Inl e \<Rightarrow> Error500 e
      | Inr r \<Rightarrow> r)"

record benchmarks =
  bm_portfolio_return_percent :: real
  bm_start_value :: real
  bm_end_value :: real
  bm_period_days :: nat
  bm_btc_return_percent :: real
  bm_btc_outperformance :: real
  bm_btc_start_price :: real
  bm_btc_end_price :: real
  bm_eth_return_percent :: real
  bm_eth_outperformance :: real
  bm_eth_start_price :: real
  bm_eth_end_price :: real
  bm_balanced_return_percent :: real
  bm_balanced_outperformance :: real

definition benchmark_comparison :: "history_point list \<Rightarrow> py_error + benchmarks response" where
  "benchmark_comparison historical_data =
     (if historical_data = [] then Inr (ErrorReply 500 ''Historical data not available'')
      else if length historical_data < 2
      then Inr (ErrorReply 400 ''Insufficient data for benchmark comparison'')
      else
        let first = hd historical_data;
            final = last historical_data;
            start_value = h_total_value first;
            end_value = h_total_value final
        in
        result_bind (div_if_positive (end_value - start_value) start_value) (\<lambda>portfolio_return.
        let start_btc = h_btc_price first;
            end_btc = h_btc_price final
        in
        result_bind (div_if_positive (end_btc - start_btc) start_btc) (\<lambda>btc_return.
        let start_eth = h_eth_price first;
            end_eth = h_eth_price final
        in
        result_bind (div_if_positive (end_eth - start_eth) start_eth) (\<lambda>eth_return.
        result_bind (py_div (btc_return + eth_return) 2) (\<lambda>benchmark_return.
          Inr (Ok200
            \<lparr>bm_portfolio_return_percent = py_round (portfolio_return * 100) 2,
             bm_start_value = py_round start_value 2,
             bm_end_value = py_round end_value 2,
             bm_period_days = length historical_data,
             bm_btc_return_percent = py_round (btc_return * 100) 2,
             bm_btc_outperformance = py_round ((portfolio_return - btc_return) * 100) 2,
             bm_btc_start_price = py_round start_btc 2,
             bm_btc_end_price = py_round end_btc 2,
             bm_eth_return_percent = py_round (eth_return * 100) 2,
             bm_eth_outperformance = py_round ((portfolio_return - eth_return) * 100) 2,
             bm_eth_start_price = py_round start_eth 2,
             bm_eth_end_price = py_round end_eth 2,
             bm_balanced_return_percent = py_round (benchmark_return * 100) 2,
             bm_balanced_outperformance = py_round ((portfolio_return - benchmark_return) * 100) 2\<rparr>))))))"

definition get_benchmark_comparison_body :: "history_point list \<Rightarrow> py_error + benchmarks response" where
  "get_benchmark_comparison_body historical_data =
     result_bind (resolve_global ''generate_portfolio_history'') (\<lambda>_.
       benchmark_comparison historical_data)"

definition get_benchmark_comparison :: "history_point list \<Rightarrow> benchmarks response" where
  "get_benchmark_comparison historical_data =
     (case get_benchmark_comparison_body historical_data of
        Inl e \<Rightarrow> Error500 e
      | Inr r \<Rightarrow> r)"

section \<open>Performance metrics\<close>

text \<open>
  \<^verbatim>\<open>x ** y\<close> on floats: a negative base with a fractional exponent gives a complex
  number, zero to a negative power raises ZeroDivisionError. A complex result stays
  complex through \<^verbatim>\<open>- 1\<close> and \<^verbatim>\<open>* 100\<close>, and \<^verbatim>\<open>round\<close> of it raises TypeError.
\<close>

datatype py_num = PyFloat real | PyComplex

definition py_pow :: "real \<Rightarrow> real \<Rightarrow> py_error + py_num" where
  "py_pow x y =
     (if y = 0 then Inr (PyFloat 1)
      else if x = 0 then (if y < 0 then Inl ZeroDivisionError else Inr (PyFloat 0))
      else if x > 0 then Inr (PyFloat (x powr y))
      else if y \<in> \<int> then Inr (PyFloat (power_int x \<lfloor>y\<rfloor>))
      else Inr PyComplex)"

definition round_num :: "py_num \<Rightarrow> nat \<Rightarrow> py_error + real" where
  "round_num v n = (case v of PyFloat x \<Rightarrow> Inr (py_round x n) | PyComplex \<Rightarrow> Inl TypeError)"

record week_point =
  w_date :: int
  w_total_value :: real
  w_weekly_return :: real

text \<open>
  The loop of \<^verbatim>\<open>calculate_weekly_performance\<close>. Each round sets \<^verbatim>\<open>TODAY\<close> to
  \<^verbatim>\<open>current_date\<close> and simulates up to it. \<^verbatim>\<open>datetime.now()\<close> is the parameter \<open>now\<close>:
  the clock does not move during the computation.
\<close>

definition record_week :: "datetime \<Rightarrow> real \<Rightarrow> real option \<Rightarrow> week_point list \<Rightarrow> py_error + week_point list" where
  "record_week date tv previous_value performance_data =
     (case previous_value of
        None \<Rightarrow> Inr performance_data
      | Some pv \<Rightarrow>
          if pv \<noteq> 0 \<and> pv > 0
          then result_bind (py_div (tv - pv) pv) (\<lambda>q.
                 Inr (performance_data @
                      [\<lparr>w_date = date_str date, w_total_value = py_round tv 2,
                        w_weekly_return = q * 100\<rparr>]))
          else Inr performance_data)"

definition week_round :: "adapter \<Rightarrow> transaction list \<Rightarrow> price_cache \<Rightarrow> datetime \<Rightarrow> real option
    \<Rightarrow> week_point list \<Rightarrow> py_error + (price_cache \<times> real option \<times> week_point list)" where
  "week_round net ledger cache date previous_value performance_data =
     result_bind (simulate_investments net date cache ''weekly'' DEFAULT_BTC_INVEST DEFAULT_ETH_INVEST)
       (\<lambda>(cache1, bi0, ei0, bh0, eh0).
          case apply_manual_transactions ledger bh0 eh0 bi0 ei0 of (bh, eh, bi, ei) \<Rightarrow>
          (case get_price_on_date net cache1 date of
             (None, cache2) \<Rightarrow> Inr (cache2, previous_value, performance_data)
           | (Some price_data, cache2) \<Rightarrow>
               let tv = bh * bitcoin price_data + eh * ethereum price_data in
               result_bind (record_week date tv previous_value performance_data)
                 (\<lambda>performance_data'. Inr (cache2, Some tv, performance_data'))))"

function weekly_loop :: "adapter \<Rightarrow> datetime \<Rightarrow> transaction list \<Rightarrow> price_cache \<Rightarrow> datetime
    \<Rightarrow> real option \<Rightarrow> week_point list \<Rightarrow> py_error + (price_cache \<times> week_point list)" where
  "weekly_loop net now ledger cache date previous_value performance_data =
     (if date \<le> now
      then (case week_round net ledger cache date previous_value performance_data of
              Inl e \<Rightarrow> Inl e
            | Inr (cache', previous_value', performance_data') \<Rightarrow>
                weekly_loop net now ledger cache' (date + timedelta_weeks 1)
                  previous_value' performance_data')
      else Inr (cache, performance_data))"
  by pat_completeness auto
termination
  by (relation "measure (\<lambda>(net, now, ledger, cache, date, pv, acc). nat (now - date + 1))")
     (simp_all add: timedelta_weeks_def us_per_day_def)

declare weekly_loop.simps [simp del]

definition calculate_weekly_performance :: "adapter \<Rightarrow> datetime \<Rightarrow> transaction list \<Rightarrow> price_cache
    \<Rightarrow> week_point list" where
  "calculate_weekly_performance net now ledger cache =
     (case weekly_loop net now ledger cache START_DATE None [] of
        Inl e \<Rightarrow> []
      | Inr (cache', performance_data) \<Rightarrow> performance_data)"

text \<open>\<^verbatim>\<open>max(..., key=...)\<close> and \<^verbatim>\<open>min(..., key=...)\<close>: the first element with the extreme key.\<close>

fun max_week :: "week_point \<Rightarrow> week_point list \<Rightarrow> week_point" where
  "max_week best [] = best"
| "max_week best (w # ws) = max_week (if w_weekly_return w > w_weekly_return best then w else best) ws"

fun min_week :: "week_point \<Rightarrow> week_point list \<Rightarrow> week_point" where
  "min_week worst [] = worst"
| "min_week worst (w # ws) = min_week (if w_weekly_return w < w_weekly_return worst then w else worst) ws"

definition best_week_of :: "week_point list \<Rightarrow> week_point option" where
  "best_week_of weekly_performance =
     (case weekly_performance of [] \<Rightarrow> None | w # ws \<Rightarrow> Some (max_week w ws))"

definition worst_week_of :: "week_point list \<Rightarrow> week_point option" where
  "worst_week_of weekly_performance =
     (case weekly_performance of [] \<Rightarrow> None | w # ws \<Rightarrow> Some (min_week w ws))"

text \<open>The local variables of \<^verbatim>\<open>calculate_performance_metrics\<close> before the result is built.\<close>

record performance_locals =
  pm_total_invested :: real
  pm_total_current_value :: real
  pm_total_profit_loss :: real
  pm_total_roi_percent :: real
  pm_btc_current_value :: real
  pm_eth_current_value :: real
  pm_btc_profit_loss :: real
  pm_eth_profit_loss :: real
  pm_btc_roi_percent :: real
  pm_eth_roi_percent :: real
  pm_days_invested :: int
  pm_annualized_return :: py_num
  pm_btc_allocation :: real
  pm_eth_allocation :: real
  pm_avg_btc_price :: real
  pm_avg_eth_price :: real

definition annualized :: "real \<Rightarrow> real \<Rightarrow> real \<Rightarrow> py_error + py_num" where
  "annualized current_value invested years_invested =
     (if years_invested > 0 \<and> invested > 0
      then result_bind (py_div current_value invested) (\<lambda>growth.
           result_bind (py_div 1 years_invested) (\<lambda>exponent.
           result_bind (py_pow growth exponent) (\<lambda>p.
             Inr (case p of PyFloat v \<Rightarrow> PyFloat ((v - 1) * 100) | PyComplex \<Rightarrow> PyComplex))))
      else Inr (PyFloat 0))"

definition performance_calc :: "datetime \<Rightarrow> real \<times> real \<times> real \<times> real \<Rightarrow> price_data
    \<Rightarrow> py_error + performance_locals" where
  "performance_calc now h current_prices =
     (case h of (bh, eh, bi, ei) \<Rightarrow>
        let bv = bh * bitcoin current_prices;
            ev = eh * ethereum current_prices;
            ti = bi + ei;
            tv = bv + ev;
            tpl = tv - ti
        in
        result_bind (percent_if_positive tpl ti) (\<lambda>total_roi.
        let bpl = bv - bi;
            epl = ev - ei
        in
        result_bind (percent_if_positive bpl bi) (\<lambda>btc_roi.
        result_bind (percent_if_positive epl ei) (\<lambda>eth_roi.
        let days_invested = (now - START_DATE) div us_per_day in
        result_bind (py_div (real_of_int days_invested) (36525 / 100)) (\<lambda>years_invested.
        result_bind (annualized tv ti years_invested) (\<lambda>annualized_return.
        result_bind (percent_if_positive bv tv) (\<lambda>btc_allocation.
        result_bind (percent_if_positive ev tv) (\<lambda>eth_allocation.
        result_bind (div_if_positive bi bh) (\<lambda>avg_btc_price.
        result_bind (div_if_positive ei eh) (\<lambda>avg_eth_price.
          Inr \<lparr>pm_total_invested = ti, pm_total_current_value = tv, pm_total_profit_loss = tpl,
               pm_total_roi_percent = total_roi,
               pm_btc_current_value = bv, pm_eth_current_value = ev,
               pm_btc_profit_loss = bpl, pm_eth_profit_loss = epl,
               pm_btc_roi_percent = btc_roi, pm_eth_roi_percent = eth_roi,
               pm_days_invested = days_invested, pm_annualized_return = annualized_return,
               pm_btc_allocation = btc_allocation, pm_eth_allocation = eth_allocation,
               pm_avg_btc_price = avg_btc_price, pm_avg_eth_price = avg_eth_price\<rparr>))))))))))"

text \<open>The comparison with a lump sum bought at the prices of \<^verbatim>\<open>START_DATE\<close>.\<close>

definition dca_vs_lump_sum_of :: "price_data option \<Rightarrow> price_data \<Rightarrow> real \<Rightarrow> real \<Rightarrow> py_error + real" where
  "dca_vs_lump_sum_of start_prices current_prices invested current_value =
     (case start_prices of
        None \<Rightarrow> Inr 0
      | Some sp \<Rightarrow>
          result_bind (py_div (invested * (67 / 100)) (bitcoin sp)) (\<lambda>lump_sum_btc.
          result_bind (py_div (invested * (33 / 100)) (ethereum sp)) (\<lambda>lump_sum_eth.
          let lump_sum_value = lump_sum_btc * bitcoin current_prices
                               + lump_sum_eth * ethereum current_prices
          in percent_if_positive (current_value - lump_sum_value) lump_sum_value)))"

record total_metrics =
  tm_invested :: real
  tm_current_value :: real
  tm_profit_loss :: real
  tm_roi_percent :: real
  tm_annualized_return :: real
  tm_days_invested :: int

record coin_metrics =
  cm_invested :: real
  cm_current_value :: real
  cm_profit_loss :: real
  cm_roi_percent :: real
  cm_allocation_percent :: real
  cm_avg_purchase_price :: real
  cm_current_price :: real
  cm_holdings :: real

record dca_analysis =
  dca_vs_lump_sum_percent :: real
  dca_weekly_avg_investment :: real
  dca_total_weeks_invested :: real

record period =
  period_date :: "int option"
  period_return_percent :: real

record performance =
  total_metrics :: total_metrics
  btc_metrics :: coin_metrics
  eth_metrics :: coin_metrics
  dca_analysis :: dca_analysis
  best_week :: period
  worst_week :: period

definition period_of :: "week_point option \<Rightarrow> period" where
  "period_of w =
     (case w of
        None \<Rightarrow> \<lparr>period_date = None, period_return_percent = 0\<rparr>
      | Some p \<Rightarrow> \<lparr>period_date = Some (w_date p), period_return_percent = py_round (w_weekly_return p) 2\<rparr>)"

definition performance_result :: "real \<times> real \<times> real \<times> real \<Rightarrow> price_data \<Rightarrow> performance_locals
    \<Rightarrow> real \<Rightarrow> week_point list \<Rightarrow> py_error + performance" where
  "performance_result h current_prices v dca_vs_lump_sum weekly_performance =
     (case h of (bh, eh, bi, ei) \<Rightarrow>
        result_bind (round_num (pm_annualized_return v) 2) (\<lambda>annualized_return.
        result_bind (if pm_days_invested v > 0
                     then result_bind (py_div (real_of_int (pm_days_invested v)) 7) (\<lambda>weeks_invested.
                          result_bind (py_div (pm_total_invested v) weeks_invested) (\<lambda>q.
                            Inr (py_round q 2)))
                     else Inr 0) (\<lambda>weekly_avg_investment.
        result_bind (py_div (real_of_int (pm_days_invested v)) 7) (\<lambda>total_weeks.
          Inr \<lparr>total_metrics =
                 \<lparr>tm_invested = py_round (pm_total_invested v) 2,
                  tm_current_value = py_round (pm_total_current_value v) 2,
                  tm_profit_loss = py_round (pm_total_profit_loss v) 2,
                  tm_roi_percent = py_round (pm_total_roi_percent v) 2,
                  tm_annualized_return = annualized_return,
                  tm_days_invested = pm_days_invested v\<rparr>,
               btc_metrics =
                 \<lparr>cm_invested = py_round bi 2,
                  cm_current_value = py_round (pm_btc_current_value v) 2,
                  cm_profit_loss = py_round (pm_btc_profit_loss v) 2,
                  cm_roi_percent = py_round (pm_btc_roi_percent v) 2,
                  cm_allocation_percent = py_round (pm_btc_allocation v) 2,
                  cm_avg_purchase_price = py_round (pm_avg_btc_price v) 2,
                  cm_current_price = py_round (bitcoin current_prices) 2,
                  cm_holdings = py_round bh 6\<rparr>,
               eth_metrics =
                 \<lparr>cm_invested = py_round ei 2,
                  cm_current_value = py_round (pm_eth_current_value v) 2,
                  cm_profit_loss = py_round (pm_eth_profit_loss v) 2,
                  cm_roi_percent = py_round (pm_eth_roi_percent v) 2,
                  cm_allocation_percent = py_round (pm_eth_allocation v) 2,
                  cm_avg_purchase_price = py_round (pm_avg_eth_price v) 2,
                  cm_current_price = py_round (ethereum current_prices) 2,
                  cm_holdings = py_round eh 6\<rparr>,
               dca_analysis =
                 \<lparr>dca_vs_lump_sum_percent = py_round dca_vs_lump_sum 2,
                  dca_weekly_avg_investment = weekly_avg_investment,
                  dca_total_weeks_invested = py_round total_weeks 1\<rparr>,
               best_week = period_of (best_week_of weekly_performance),
               worst_week = period_of (worst_week_of weekly_performance)\<rparr>))))"

text \<open>
  \<^verbatim>\<open>calculate_performance_metrics\<close>: the body of its \<^verbatim>\<open>try\<close> (\<open>None\<close> is the early
  \<^verbatim>\<open>return None\<close> when no spot price is available), and the function with its
  \<^verbatim>\<open>except Exception\<close>, which returns \<^verbatim>\<open>None\<close> as well.
\<close>

definition calculate_performance_metrics_body :: "adapter \<Rightarrow> datetime \<Rightarrow> datetime \<Rightarrow> price_cache
    \<Rightarrow> transaction list \<Rightarrow> spot_reply \<Rightarrow> py_error + performance option" where
  "calculate_performance_metrics_body net now today cache ledger api =
     result_bind (simulate_investments net today cache ''weekly'' DEFAULT_BTC_INVEST DEFAULT_ETH_INVEST)
       (\<lambda>(cache1, bi0, ei0, bh0, eh0).
          let h = apply_manual_transactions ledger bh0 eh0 bi0 ei0 in
          case get_current_prices api of
            None \<Rightarrow> Inr None
          | Some current_prices \<Rightarrow>
              result_bind (performance_calc now h current_prices) (\<lambda>v.
              case get_price_on_date net cache1 START_DATE of (start_prices, cache2) \<Rightarrow>
              result_bind (dca_vs_lump_sum_of start_prices current_prices
                             (pm_total_invested v) (pm_total_current_value v)) (\<lambda>dca_vs_lump_sum.
              let weekly_performance = calculate_weekly_performance net now ledger cache2 in
              result_bind (performance_result h current_prices v dca_vs_lump_sum weekly_performance)
                (\<lambda>r. Inr (Some r)))))"

definition calculate_performance_metrics :: "adapter \<Rightarrow> datetime \<Rightarrow> datetime \<Rightarrow> price_cache
    \<Rightarrow> transaction list \<Rightarrow> spot_reply \<Rightarrow> performance option" where
  "calculate_performance_metrics net now today cache ledger api =
     (case calculate_performance_metrics_body net now today cache ledger api of
        Inl e \<Rightarrow> None
      | Inr r \<Rightarrow> r)"

section \<open>Vocabulary of the statements\<close>

text \<open>
  The definitions of this section are not code of the repository. They name what the
  statements below talk about: \<open>price_at\<close> is the result of one price lookup,
  \<open>cache_ok\<close> says that the prices stored in the cache are non-zero (the invariant that
  \<open>get_price_on_date\<close> keeps), \<open>usable\<close> that a lookup result can be divided by,
  \<open>steps_left\<close> counts the iterations the simulator's loop still makes from a date,
  \<open>step_date\<close> is the date of its \<open>j\<close>-th coming iteration, \<open>credit\<close> and \<open>pure_step\<close> are what
  one iteration does to the totals when no division fails, and \<open>percent_of_cost\<close> is
  the realized gain of a sell in percent of the average buy price.
\<close>

definition price_at :: "adapter \<Rightarrow> price_cache \<Rightarrow> datetime \<Rightarrow> price_data option" where
  "price_at net cache d = fst (get_price_on_date net cache d)"

definition cache_ok :: "price_cache \<Rightarrow> bool" where
  "cache_ok cache = (\<forall>k pd. cache k = Some pd \<longrightarrow> bitcoin pd \<noteq> 0 \<and> ethereum pd \<noteq> 0)"

definition credit :: "real \<Rightarrow> real \<Rightarrow> price_data option \<Rightarrow> sim_state \<Rightarrow> sim_state" where
  "credit a b p s =
     (case p of
        None \<Rightarrow> s
      | Some pd \<Rightarrow>
          s\<lparr>btc_held := btc_held s + a / bitcoin pd,
            btc_total_usd := btc_total_usd s + DEFAULT_BTC_TOTAL,
            eth_held := eth_held s + (if even (weeks s) then b / ethereum pd else 0),
            eth_total_usd := eth_total_usd s + (if even (weeks s) then DEFAULT_ETH_TOTAL else 0)\<rparr>)"

definition usable :: "price_data option \<Rightarrow> bool" where
  "usable p = (case p of None \<Rightarrow> True | Some pd \<Rightarrow> bitcoin pd \<noteq> 0 \<and> ethereum pd \<noteq> 0)"

definition steps_left :: "datetime \<Rightarrow> string \<Rightarrow> datetime \<Rightarrow> nat" where
  "steps_left today frequency d =
     (if d \<le> today then nat ((today - d) div interval_of frequency) + 1 else 0)"

definition pure_step :: "(datetime \<Rightarrow> price_data option) \<Rightarrow> int \<Rightarrow> real \<Rightarrow> real \<Rightarrow> sim_state \<Rightarrow> sim_state" where
  "pure_step P i a b s = advance i (credit a b (P (current_date s)) s)"

definition step_date :: "sim_state \<Rightarrow> int \<Rightarrow> nat \<Rightarrow> datetime" where
  "step_date s i j = current_date s + int j * i"


section \<open>Example inputs\<close>

text \<open>
  Concrete inputs for the instances below: an upstream API that never answers, price
  caches (ten consecutive weeks at 50000 / 3000; weeks 0 and 2 only; a zero price), a
  manual ledger with two sells, value histories and a series of twenty daily returns.
\<close>

definition no_network :: adapter where
  "no_network coin_id key = RequestFailed"

definition flat_cache :: price_cache where
  "flat_cache key =
     (if 20113 \<le> key \<and> key \<le> 20176 \<and> (key - 20113) mod 7 = 0
      then Some \<lparr>bitcoin = 50000, ethereum = 3000\<rparr> else None)"


definition late_cache :: price_cache where
  "late_cache = [20120 \<mapsto> \<lparr>bitcoin = 50000, ethereum = 3000\<rparr>]"

definition example_ledger :: "transaction list" where
  "example_ledger =
     [\<lparr>tx_date = 20120 * us_per_day, coin = ''bitcoin'', amount = 1, price = 40000, tx_type = Some ''buy''\<rparr>,
      \<lparr>tx_date = 20121 * us_per_day, coin = ''ethereum'', amount = 2, price = 3000, tx_type = Some ''buy''\<rparr>,
      \<lparr>tx_date = 20130 * us_per_day, coin = ''bitcoin'', amount = 3, price = 60000, tx_type = None\<rparr>,
      \<lparr>tx_date = 20150 * us_per_day, coin = ''bitcoin'', amount = 5, price = 10000, tx_type = Some ''buy''\<rparr>]"



definition dipping_history :: "history_point list" where
  "dipping_history =
     [\<lparr>h_total_value = 100, h_btc_price = 50000, h_eth_price = 3000\<rparr>,
      \<lparr>h_total_value = 120, h_btc_price = 52000, h_eth_price = 3100\<rparr>,
      \<lparr>h_total_value = 90, h_btc_price = 45000, h_eth_price = 2500\<rparr>]"

definition rising_history :: "history_point list" where
  "rising_history =
     [\<lparr>h_total_value = 100, h_btc_price = 50000, h_eth_price = 3000\<rparr>,
      \<lparr>h_total_value = 110, h_btc_price = 52000, h_eth_price = 3100\<rparr>,
      \<lparr>h_total_value = 110, h_btc_price = 53000, h_eth_price = 3000\<rparr>]"

definition twenty_returns :: "real list" where
  "twenty_returns =
     [3 / 100, - 4 / 100, 1 / 100, 2 / 100, - 1 / 100, 5 / 100, - 6 / 100, 0, 2 / 100, 1 / 100,
      - 2 / 100, 4 / 100, 3 / 100, - 3 / 100, 1 / 100, 0, 2 / 100, - 5 / 100, 6 / 100, 1 / 100]"

definition zero_price_cache :: price_cache where
  "zero_price_cache = [20113 \<mapsto> \<lparr>bitcoin = 0, ethereum = 3000\<rparr>]"

section \<open>Facts about the simulator\<close>

lemma get_price_cache_ok:
  "cache_ok cache \<Longrightarrow> cache_ok (snd (get_price_on_date net cache d))"
  by (auto simp: cache_ok_def get_price_on_date_def Let_def truthy_def split: option.splits)

lemma price_at_nonzero:
  "cache_ok cache \<Longrightarrow> price_at net cache d = Some pd \<Longrightarrow> bitcoin pd \<noteq> 0 \<and> ethereum pd \<noteq> 0"
  by (auto simp: price_at_def cache_ok_def get_price_on_date_def Let_def truthy_def split: option.splits if_splits)

lemma price_at_stable:
  "price_at net (snd (get_price_on_date net cache d)) d' = price_at net cache d'"
  by (auto simp: price_at_def get_price_on_date_def Let_def split: option.splits)

lemma cache_ok_usable: "cache_ok cache \<Longrightarrow> usable (price_at net cache d)"
  by (auto simp: usable_def dest: price_at_nonzero split: option.splits)

lemma sim_step_ok:
  assumes "usable (price_at net cache (current_date s))"
  shows "sim_step net i a b cache s =
           Inr (snd (get_price_on_date net cache (current_date s)),
                advance i (credit a b (price_at net cache (current_date s)) s))"
proof -
  obtain p c where eq: "get_price_on_date net cache (current_date s) = (p, c)"
    by fastforce
  then have p: "price_at net cache (current_date s) = p"
    by (simp add: price_at_def)
  show ?thesis
  proof (cases p)
    case None
    with eq p show ?thesis
      by (simp add: sim_step_def credit_def)
  next
    case (Some pd)
    with assms p have nz: "bitcoin pd \<noteq> 0" "ethereum pd \<noteq> 0"
      by (simp_all add: usable_def)
    from Some nz eq p show ?thesis
      by (simp add: sim_step_def credit_def buy_btc_def buy_eth_def py_div_def
          result_bind_def advance_def even_iff_mod_2_eq_zero)
  qed
qed

lemma steps_left_Suc:
  "d \<le> today \<Longrightarrow> steps_left today f d = Suc (steps_left today f (d + interval_of f))"
proof -
  assume le: "d \<le> today"
  let ?i = "interval_of f"
  have pos: "0 < ?i" by (rule interval_of_pos)
  show ?thesis
  proof (cases "d + ?i \<le> today")
    case True
    have "(today - d) div ?i = (today - (d + ?i)) div ?i + 1"
    proof -
      have "today - d = (today - (d + ?i)) + 1 * ?i" by simp
      then show ?thesis using pos
        by (metis div_add_self2 add.commute mult_1 less_irrefl div_mult_self1 add_diff_cancel_left' diff_add_cancel)
    qed
    moreover have "0 \<le> (today - (d + ?i)) div ?i"
      using True pos by (simp add: pos_imp_zdiv_nonneg_iff)
    ultimately show ?thesis using le True
      by (simp add: steps_left_def nat_add_distrib)
  next
    case False
    then have "(today - d) div ?i = 0" using le pos by simp
    with le False show ?thesis by (simp add: steps_left_def)
  qed
qed

lemma pure_step_date: "current_date (pure_step P i a b s) = current_date s + i"
  by (simp add: pure_step_def advance_def credit_def split: option.splits)

lemma sim_loop_ok:
  "\<forall>j < steps_left today f (current_date s). usable (price_at net cache (step_date s (interval_of f) j)) \<Longrightarrow>
     \<exists>cache'. sim_loop net today f a b cache s =
         Inr (cache', (pure_step (price_at net cache) (interval_of f) a b ^^ steps_left today f (current_date s)) s)
       \<and> price_at net cache' = price_at net cache \<and> (cache_ok cache \<longrightarrow> cache_ok cache')"
proof (induction net today f a b cache s rule: sim_loop.induct)
  case (1 net today f a b cache s)
  let ?i = "interval_of f"
  let ?c1 = "snd (get_price_on_date net cache (current_date s))"
  let ?s1 = "pure_step (price_at net cache) ?i a b s"
  show ?case
  proof (cases "current_date s \<le> today")
    case False
    then show ?thesis
      by (simp add: steps_left_def sim_loop.simps)
  next
    case True
    have n: "steps_left today f (current_date s) = Suc (steps_left today f (current_date ?s1))"
      using True by (simp add: steps_left_Suc pure_step_date)
    have "usable (price_at net cache (step_date s ?i 0))"
      using "1.prems" n by simp
    then have step: "sim_step net ?i a b cache s = Inr (?c1, ?s1)"
      by (simp add: sim_step_ok pure_step_def step_date_def)
    have same: "price_at net ?c1 = price_at net cache"
      by (rule ext) (rule price_at_stable)
    have "\<forall>j < steps_left today f (current_date ?s1). usable (price_at net ?c1 (step_date ?s1 ?i j))"
    proof (intro allI impI)
      fix j assume "j < steps_left today f (current_date ?s1)"
      then have "usable (price_at net cache (step_date s ?i (Suc j)))"
        using "1.prems" n by simp
      then show "usable (price_at net ?c1 (step_date ?s1 ?i j))"
        by (simp add: same step_date_def pure_step_date algebra_simps)
    qed
    from "1.IH" [OF True step refl this] same
    obtain cache' where
      loop: "sim_loop net today f a b ?c1 ?s1 =
               Inr (cache', (pure_step (price_at net cache) ?i a b ^^ steps_left today f (current_date ?s1)) ?s1)"
      and same': "price_at net cache' = price_at net cache"
      and ok': "cache_ok ?c1 \<longrightarrow> cache_ok cache'"
      by auto
    have "sim_loop net today f a b cache s = sim_loop net today f a b ?c1 ?s1"
      using True step by (simp add: sim_loop.simps [of net today f a b cache s])
    with loop n ok' same' show ?thesis
      by (simp add: funpow_swap1 get_price_cache_ok)
  qed
qed

lemma run_shape:
  "current_date ((pure_step P i a b ^^ n) s) = step_date s i n \<and>
   weeks ((pure_step P i a b ^^ n) s) = weeks s + n"
  by (induction n)
     (simp_all add: step_date_def pure_step_def advance_def credit_def algebra_simps split: option.splits)

lemma run_totals:
  "btc_total_usd ((pure_step P i a b ^^ n) s) =
     btc_total_usd s + (\<Sum>j<n. case P (step_date s i j) of None \<Rightarrow> 0 | Some pd \<Rightarrow> DEFAULT_BTC_TOTAL) \<and>
   eth_total_usd ((pure_step P i a b ^^ n) s) =
     eth_total_usd s + (\<Sum>j<n. case P (step_date s i j) of None \<Rightarrow> 0
                               | Some pd \<Rightarrow> if even (weeks s + j) then DEFAULT_ETH_TOTAL else 0) \<and>
   btc_held ((pure_step P i a b ^^ n) s) =
     btc_held s + (\<Sum>j<n. case P (step_date s i j) of None \<Rightarrow> 0 | Some pd \<Rightarrow> a / bitcoin pd) \<and>
   eth_held ((pure_step P i a b ^^ n) s) =
     eth_held s + (\<Sum>j<n. case P (step_date s i j) of None \<Rightarrow> 0
                          | Some pd \<Rightarrow> if even (weeks s + j) then b / ethereum pd else 0)"
proof (induction n)
  case 0
  show ?case by simp
next
  case (Suc n)
  let ?S = "(pure_step P i a b ^^ n) s"
  have shape: "current_date ?S = step_date s i n" "weeks ?S = weeks s + n"
    by (simp_all add: run_shape)
  have unfold: "(pure_step P i a b ^^ Suc n) s = advance i (credit a b (P (step_date s i n)) ?S)"
    by (simp add: pure_step_def shape)
  show ?case
    unfolding unfold using Suc shape
    by (cases "P (step_date s i n)") (simp_all add: advance_def credit_def)
qed

lemma weekly_step_date:
  "step_date initial_state (interval_of ''weekly'') k = START_DATE + timedelta_weeks (int k)"
  by (simp add: step_date_def initial_state_def interval_of_def timedelta_weeks_def)

lemma steps_left_weekly_10:
  assumes "START_DATE + timedelta_weeks 9 \<le> today" "today < START_DATE + timedelta_weeks 10"
  shows "steps_left today ''weekly'' START_DATE = 10"
proof -
  have "(today - START_DATE) div 604800000000 = 9"
    using assms by (simp add: timedelta_weeks_def us_per_day_def)
  moreover have "START_DATE \<le> today"
    using assms(1) by (simp add: timedelta_weeks_def us_per_day_def)
  ultimately show ?thesis
    by (simp add: steps_left_def interval_of_def timedelta_weeks_def us_per_day_def)
qed

lemma sum_even_steps:
  "(\<Sum>j<n. if even (j::nat) then (c::real) else 0) = c * real ((n + 1) div 2)"
  by (induction n) (auto simp: algebra_simps)

lemma sum_even_10: "(\<Sum>j<10. if even (j::nat) then (c::real) else 0) = 5 * c"
  by (simp add: sum_even_steps)

lemma cache_ok_empty: "cache_ok Map.empty"
  by (simp add: cache_ok_def)

lemma date_str_step: "date_str (START_DATE + timedelta_weeks k) = 20113 + 7 * k"
  by (simp add: date_str_def START_DATE_def timedelta_weeks_def us_per_day_def)

lemma price_at_cached: "cache (date_str d) = Some pd \<Longrightarrow> price_at net cache d = Some pd"
  by (simp add: price_at_def get_price_on_date_def)

lemma price_at_no_network: "cache (date_str d) = None \<Longrightarrow> price_at no_network cache d = None"
  by (simp add: price_at_def get_price_on_date_def fetch_price_def no_network_def truthy_def)

lemma count_sum:
  "(\<Sum>j<(n::nat). case P j of None \<Rightarrow> 0 | Some (pd::price_data) \<Rightarrow> if Q j then (c::real) else 0)
     = c * real (card {j. j < n \<and> Q j \<and> P j \<noteq> None})"
proof (induction n)
  case 0
  show ?case by simp
next
  case (Suc n)
  have fin: "finite {j. j < n \<and> Q j \<and> P j \<noteq> None}" by simp
  have notin: "n \<notin> {j. j < n \<and> Q j \<and> P j \<noteq> None}" by simp
  have split: "{j. j < Suc n \<and> Q j \<and> P j \<noteq> None} =
      (if Q n \<and> P n \<noteq> None then insert n {j. j < n \<and> Q j \<and> P j \<noteq> None}
       else {j. j < n \<and> Q j \<and> P j \<noteq> None})"
    by (auto simp: less_Suc_eq)
  show ?case
    unfolding split using Suc fin notin
    by (cases "P n") (simp_all add: algebra_simps)
qed

lemma simulate_ok:
  assumes "\<forall>j < steps_left today f START_DATE.
             usable (price_at net cache (START_DATE + int j * interval_of f))"
  shows "\<exists>cache'. simulate_investments net today cache f a b =
      Inr (cache',
        (\<Sum>j<steps_left today f START_DATE.
            case price_at net cache (START_DATE + int j * interval_of f) of
              None \<Rightarrow> 0 | Some pd \<Rightarrow> DEFAULT_BTC_TOTAL),
        (\<Sum>j<steps_left today f START_DATE.
            case price_at net cache (START_DATE + int j * interval_of f) of
              None \<Rightarrow> 0 | Some pd \<Rightarrow> if even j then DEFAULT_ETH_TOTAL else 0),
        (\<Sum>j<steps_left today f START_DATE.
            case price_at net cache (START_DATE + int j * interval_of f) of
              None \<Rightarrow> 0 | Some pd \<Rightarrow> a / bitcoin pd),
        (\<Sum>j<steps_left today f START_DATE.
            case price_at net cache (START_DATE + int j * interval_of f) of
              None \<Rightarrow> 0 | Some pd \<Rightarrow> if even j then b / ethereum pd else 0))
      \<and> price_at net cache' = price_at net cache \<and> (cache_ok cache \<longrightarrow> cache_ok cache')"
proof -
  have "\<forall>j < steps_left today f (current_date initial_state).
          usable (price_at net cache (step_date initial_state (interval_of f) j))"
    using assms by (simp add: step_date_def initial_state_def)
  from sim_loop_ok [OF this, of a b]
  obtain cache' where loop: "sim_loop net today f a b cache initial_state =
      Inr (cache', (pure_step (price_at net cache) (interval_of f) a b
                     ^^ steps_left today f (current_date initial_state)) initial_state)"
    and rest: "price_at net cache' = price_at net cache" "cache_ok cache \<longrightarrow> cache_ok cache'"
    by auto
  let ?S = "(pure_step (price_at net cache) (interval_of f) a b
               ^^ steps_left today f START_DATE) initial_state"
  have init: "btc_total_usd initial_state = 0" "eth_total_usd initial_state = 0"
    "btc_held initial_state = 0" "eth_held initial_state = 0" "weeks initial_state = 0"
    "current_date initial_state = START_DATE"
    by (simp_all add: initial_state_def)
  have "sim_loop net today f a b cache initial_state = Inr (cache', ?S)"
    using loop by (simp only: init)
  then have "simulate_investments net today cache f a b =
      Inr (cache', btc_total_usd ?S, eth_total_usd ?S, btc_held ?S, eth_held ?S)"
    by (simp add: simulate_investments_def result_bind_def)
  then show ?thesis
    using rest by (simp add: run_totals init step_date_def cong: option.case_cong)
qed

section \<open>Properties of the simulator\<close>


lemma steps_left_weekly:
  "steps_left (START_DATE + timedelta_weeks (int k)) ''weekly'' START_DATE = k + 1"
  by (simp add: steps_left_def interval_of_def timedelta_weeks_def us_per_day_def)




lemma ceiling_half: "\<lceil>real n / 2\<rceil> = int ((n + 1) div 2)"
proof -
  have "\<lceil>real n / 2\<rceil> = \<lceil>real_of_int (int n) / real_of_int 2\<rceil>" by simp
  also have "\<dots> = - (- int n div 2)" by (rule ceiling_divide_eq_div)
  also have "\<dots> = int ((n + 1) div 2)" by (simp add: zdiv_int)
  finally show ?thesis .
qed

lemma count_all:
  "(\<Sum>j<(n::nat). case P j of None \<Rightarrow> 0 | Some (pd::price_data) \<Rightarrow> (c::real))
     = c * real (card {j. j < n \<and> P j \<noteq> None})"
  using count_sum [where n = n and P = P and Q = "\<lambda>_. True" and c = c]
  by (simp cong: option.case_cong)

lemma card_even_below: "card {j. j < (n::nat) \<and> even j} = (n + 1) div 2"
proof (induction n)
  case 0
  show ?case by simp
next
  case (Suc n)
  have "{j. j < Suc n \<and> even j} = (if even n then insert n {j. j < n \<and> even j} else {j. j < n \<and> even j})"
    by (auto simp: less_Suc_eq)
  then show ?case using Suc by (auto elim: oddE)
qed

text \<open>
  Claim C3, as amended. The period counter starts at 0 and every step increments it,
  skipped or not. A step credits a secondary purchase (one \<^verbatim>\<open>DEFAULT_ETH_TOTAL\<close> and
  \<^verbatim>\<open>eth_amount / eth_price\<close> units) exactly when it has price data and its counter is
  even. Every purchase adds one fixed gross cost, so the invested totals count the
  purchases: over the \<open>n\<close> steps of a run the number of primary purchases is the number
  of steps with data, the number of secondary purchases is the number of even steps
  with data, and when every step has data these are \<open>n\<close> and \<open>\<lceil>n / 2\<rceil>\<close>.
\<close>

theorem secondary_cadence:
  "weeks initial_state = 0
   \<and> (cache_ok cache \<longrightarrow>
        (\<exists>cache' s'. sim_step net i a b cache s = Inr (cache', s') \<and> weeks s' = weeks s + 1 \<and>
           (case price_at net cache (current_date s) of
              None \<Rightarrow> eth_total_usd s' = eth_total_usd s \<and> eth_held s' = eth_held s
            | Some pd \<Rightarrow>
                if weeks s mod 2 = 0
                then eth_total_usd s' = eth_total_usd s + DEFAULT_ETH_TOTAL
                     \<and> eth_held s' = eth_held s + b / ethereum pd
                else eth_total_usd s' = eth_total_usd s \<and> eth_held s' = eth_held s)))
   \<and> (cache_ok cache \<longrightarrow>
        (\<exists>cache' bh eh. simulate_investments net today cache f a b =
           Inr (cache',
                DEFAULT_BTC_TOTAL * real (card {j. j < steps_left today f START_DATE
                   \<and> price_at net cache (START_DATE + int j * interval_of f) \<noteq> None}),
                DEFAULT_ETH_TOTAL * real (card {j. j < steps_left today f START_DATE \<and> even j
                   \<and> price_at net cache (START_DATE + int j * interval_of f) \<noteq> None}),
                bh, eh)))
   \<and> (cache_ok cache
        \<and> (\<forall>j < steps_left today f START_DATE.
              price_at net cache (START_DATE + int j * interval_of f) \<noteq> None) \<longrightarrow>
        (\<exists>cache' bh eh. simulate_investments net today cache f a b =
           Inr (cache',
                DEFAULT_BTC_TOTAL * real (steps_left today f START_DATE),
                DEFAULT_ETH_TOTAL * of_int \<lceil>real (steps_left today f START_DATE) / 2\<rceil>,
                bh, eh)))"
proof -
  let ?N = "steps_left today f START_DATE"
  let ?P = "\<lambda>j. price_at net cache (START_DATE + int j * interval_of f)"
  have init: "weeks initial_state = 0"
    by (simp add: initial_state_def)
  have step: "\<exists>cache' s'. sim_step net i a b cache s = Inr (cache', s') \<and> weeks s' = weeks s + 1 \<and>
           (case price_at net cache (current_date s) of
              None \<Rightarrow> eth_total_usd s' = eth_total_usd s \<and> eth_held s' = eth_held s
            | Some pd \<Rightarrow>
                if weeks s mod 2 = 0
                then eth_total_usd s' = eth_total_usd s + DEFAULT_ETH_TOTAL
                     \<and> eth_held s' = eth_held s + b / ethereum pd
                else eth_total_usd s' = eth_total_usd s \<and> eth_held s' = eth_held s)"
    if ok: "cache_ok cache"
  proof -
    have "usable (price_at net cache (current_date s))"
      using ok by (rule cache_ok_usable)
    then have "sim_step net i a b cache s =
        Inr (snd (get_price_on_date net cache (current_date s)),
             advance i (credit a b (price_at net cache (current_date s)) s))"
      by (rule sim_step_ok)
    then show ?thesis
      by (cases "price_at net cache (current_date s)")
         (simp_all add: advance_def credit_def even_iff_mod_2_eq_zero)
  qed
  have totals: "\<exists>cache' bh eh. simulate_investments net today cache f a b =
           Inr (cache', DEFAULT_BTC_TOTAL * real (card {j. j < ?N \<and> ?P j \<noteq> None}),
                DEFAULT_ETH_TOTAL * real (card {j. j < ?N \<and> even j \<and> ?P j \<noteq> None}), bh, eh)"
    if ok: "cache_ok cache"
  proof -
    have "\<forall>j < ?N. usable (?P j)"
      using ok by (simp add: cache_ok_usable)
    from simulate_ok [OF this, of a b] show ?thesis
      by (simp only: count_all [where n = ?N and P = ?P] count_sum [where n = ?N and P = ?P and Q = even]) blast
  qed
  have full: "\<exists>cache' bh eh. simulate_investments net today cache f a b =
           Inr (cache', DEFAULT_BTC_TOTAL * real ?N,
                DEFAULT_ETH_TOTAL * of_int \<lceil>real ?N / 2\<rceil>, bh, eh)"
    if ok: "cache_ok cache" and data: "\<forall>j < ?N. ?P j \<noteq> None"
  proof -
    have "{j. j < ?N \<and> ?P j \<noteq> None} = {j. j < ?N}"
      using data by auto
    moreover have "{j. j < ?N \<and> even j \<and> ?P j \<noteq> None} = {j. j < ?N \<and> even j}"
      using data by auto
    ultimately show ?thesis
      using totals [OF ok] by (simp add: card_even_below ceiling_half)
  qed
  from init step totals full show ?thesis by blast
qed

lemma no_network_keeps_cache: "snd (get_price_on_date no_network cache d) = cache"
  by (simp add: get_price_on_date_def Let_def fetch_price_def no_network_def truthy_def split: option.splits)

lemma sim_step_no_network:
  "sim_step no_network i a b cache s = Inr (cache', s') \<Longrightarrow> cache' = cache"
  using no_network_keeps_cache [of cache "current_date s"]
  by (auto simp: sim_step_def result_bind_Inr_iff split: prod.splits option.splits)

lemma sim_loop_no_network:
  "sim_loop net today f a b cache s = Inr (cache', s') \<Longrightarrow> net = no_network \<Longrightarrow> cache' = cache"
proof (induction net today f a b cache s rule: sim_loop.induct)
  case (1 net today f a b cache s)
  show ?case
  proof (cases "current_date s \<le> today")
    case False
    with "1.prems" show ?thesis by (simp add: sim_loop.simps)
  next
    case True
    with "1.prems"(1) obtain c1 s1 where
      step: "sim_step net (interval_of f) a b cache s = Inr (c1, s1)"
      and rest: "sim_loop net today f a b c1 s1 = Inr (cache', s')"
      by (auto simp: sim_loop.simps [of net today f a b cache s] split: sum.splits)
    from "1.IH" [OF True step refl rest "1.prems"(2)] have "cache' = c1" .
    moreover from step "1.prems"(2) have "c1 = cache"
      using sim_step_no_network by blast
    ultimately show ?thesis by simp
  qed
qed

lemma simulate_no_network:
  "simulate_investments no_network today cache f a b = Inr (cache', r) \<Longrightarrow> cache' = cache"
  by (auto simp: simulate_investments_def result_bind_Inr_iff dest: sim_loop_no_network)

lemma late_prices:
  "price_at no_network late_cache START_DATE = None"
  "price_at no_network late_cache (START_DATE + interval_of ''weekly'')
     = Some \<lparr>bitcoin = 50000, ethereum = 3000\<rparr>"
  using date_str_step [of 0] date_str_step [of 1]
  by (simp_all add: price_at_cached price_at_no_network late_cache_def interval_of_def timedelta_weeks_def)

text \<open>
  The claim as stated fails when a step is skipped. With a price for week 1 only, the
  run over weeks 0 and 1 makes one primary purchase and no secondary purchase: 0 is
  neither \<open>\<lceil>1 / 2\<rceil>\<close>, counting the primary purchases, nor \<open>\<lceil>2 / 2\<rceil>\<close>, counting the
  periods.
\<close>

theorem secondary_cadence_counterexample:
  "simulate_investments no_network (START_DATE + timedelta_weeks 1) late_cache ''weekly'' 100 50
     = Inr (late_cache, 1 * DEFAULT_BTC_TOTAL, 0 * DEFAULT_ETH_TOTAL, 100 / 50000, 0)
   \<and> (0::int) \<noteq> \<lceil>(1::real) / 2\<rceil> \<and> (0::int) \<noteq> \<lceil>(2::real) / 2\<rceil>"
proof -
  have n: "steps_left (START_DATE + timedelta_weeks 1) ''weekly'' START_DATE = 2"
    using steps_left_weekly [of 1] by simp
  have two: "{..<2::nat} = {0, 1}" by auto
  have "cache_ok late_cache"
    by (simp add: cache_ok_def late_cache_def)
  then have "\<forall>j < steps_left (START_DATE + timedelta_weeks 1) ''weekly'' START_DATE.
          usable (price_at no_network late_cache (START_DATE + int j * interval_of ''weekly''))"
    by (simp add: cache_ok_usable)
  from simulate_ok [OF this, of 100 50]
  obtain cache' where sim: "simulate_investments no_network (START_DATE + timedelta_weeks 1) late_cache ''weekly'' 100 50
     = Inr (cache', 1 * DEFAULT_BTC_TOTAL, 0 * DEFAULT_ETH_TOTAL, 100 / 50000, 0)"
    using late_prices by (auto simp: n two)
  then have "cache' = late_cache" by (rule simulate_no_network)
  moreover have "\<lceil>(1::real) / 2\<rceil> = 1"
    using ceiling_half [of 1] by simp
  ultimately show ?thesis using sim by simp
qed

lemma flat_prices:
  "k < 10 \<Longrightarrow> price_at net flat_cache (START_DATE + timedelta_weeks (int k))
      = Some \<lparr>bitcoin = 50000, ethereum = 3000\<rparr>"
  by (rule price_at_cached) (simp add: date_str_step flat_cache_def)

lemma weekly_interval: "int j * interval_of ''weekly'' = timedelta_weeks (int j)"
  by (simp add: interval_of_def timedelta_weeks_def)

lemma flat_cache_ok: "cache_ok flat_cache"
  by (simp add: cache_ok_def flat_cache_def)

text \<open>The amended statement on ten weekly steps that all have price data.\<close>

theorem secondary_cadence_witness:
  "cache_ok flat_cache
   \<and> (\<exists>cache' s'. sim_step no_network (interval_of ''weekly'') 100 50 flat_cache initial_state = Inr (cache', s')
         \<and> weeks s' = 1 \<and> eth_total_usd s' = DEFAULT_ETH_TOTAL \<and> eth_held s' = 50 / 3000)
   \<and> steps_left (START_DATE + timedelta_weeks 9) ''weekly'' START_DATE = 10
   \<and> (\<exists>cache' bh eh. simulate_investments no_network (START_DATE + timedelta_weeks 9) flat_cache ''weekly'' 100 50
         = Inr (cache', DEFAULT_BTC_TOTAL * 10, DEFAULT_ETH_TOTAL * 5, bh, eh))"
proof -
  have n: "steps_left (START_DATE + timedelta_weeks 9) ''weekly'' START_DATE = 10"
    using steps_left_weekly [of 9] by simp
  have data: "\<forall>j < steps_left (START_DATE + timedelta_weeks 9) ''weekly'' START_DATE.
         price_at no_network flat_cache (START_DATE + int j * interval_of ''weekly'') \<noteq> None"
    unfolding n weekly_interval using flat_prices [of _ no_network] by simp
  have p0: "price_at no_network flat_cache (current_date initial_state) = Some \<lparr>bitcoin = 50000, ethereum = 3000\<rparr>"
    using flat_prices [of 0 no_network] by (simp add: initial_state_def timedelta_weeks_def)
  have c: "\<lceil>real 10 / 2\<rceil> = 5" by simp
  note inst = secondary_cadence [of flat_cache no_network "interval_of ''weekly''" 100 50 initial_state
      "START_DATE + timedelta_weeks 9" "''weekly''"]
  from inst flat_cache_ok p0 have
    "\<exists>cache' s'. sim_step no_network (interval_of ''weekly'') 100 50 flat_cache initial_state = Inr (cache', s')
         \<and> weeks s' = 1 \<and> eth_total_usd s' = DEFAULT_ETH_TOTAL \<and> eth_held s' = 50 / 3000"
    by (simp add: initial_state_def)
  moreover from inst flat_cache_ok data have
    "\<exists>cache' bh eh. simulate_investments no_network (START_DATE + timedelta_weeks 9) flat_cache ''weekly'' 100 50
         = Inr (cache', DEFAULT_BTC_TOTAL * 10, DEFAULT_ETH_TOTAL * 5, bh, eh)"
    by (simp add: n)
  ultimately show ?thesis
    using flat_cache_ok n by blast
qed

lemma scenario_simulation:
  assumes range: "START_DATE + timedelta_weeks 9 \<le> today" "today < START_DATE + timedelta_weeks 10"
    and prices: "\<forall>k<10. price_at net cache (START_DATE + timedelta_weeks (int k))
                   = Some \<lparr>bitcoin = 50000, ethereum = 3000\<rparr>"
  shows "\<exists>cache'. simulate_investments net today cache ''weekly'' 100 50
           = Inr (cache', 1020, 259, 2 / 100, 5 * (50 / 3000))"
proof -
  have n: "steps_left today ''weekly'' START_DATE = 10"
    using range by (rule steps_left_weekly_10)
  have P: "\<And>j. j < 10 \<Longrightarrow> price_at net cache (START_DATE + int j * interval_of ''weekly'')
              = Some \<lparr>bitcoin = 50000, ethereum = 3000\<rparr>"
    using prices by (simp add: weekly_interval)
  have "\<forall>j < steps_left today ''weekly'' START_DATE.
          usable (price_at net cache (START_DATE + int j * interval_of ''weekly''))"
    using P by (simp add: n usable_def)
  from simulate_ok [OF this, of 100 50] show ?thesis
    using P by (auto simp: n sum_even_steps DEFAULT_BTC_TOTAL_def DEFAULT_ETH_TOTAL_def)
qed

text \<open>
  Claim C1. Start date 2025-01-25, weekly frequency, amounts 100 and 50, ten weekly
  steps (\<^verbatim>\<open>TODAY\<close> anywhere in the tenth week), every lookup returning 50000 and 3000:
  the simulator returns invested totals 1020 and 259 and holdings 0.02 and
  \<open>5 * (50 / 3000)\<close>. Valued at the same prices with an empty manual ledger, total
  invested is 1279, total value 1250, profit \<open>-29\<close>, percent change \<open>-29 / 1279 * 100\<close>,
  which \<^verbatim>\<open>/portfolio\<close> reports as \<open>-2.27\<close>.
\<close>

theorem scenario:
  assumes range: "START_DATE + timedelta_weeks 9 \<le> today" "today < START_DATE + timedelta_weeks 10"
    and prices: "\<forall>k<10. price_at net cache (START_DATE + timedelta_weeks (int k))
                   = Some \<lparr>bitcoin = 50000, ethereum = 3000\<rparr>"
    and spot: "get_current_prices_cached cached api = \<lparr>bitcoin = 50000, ethereum = 3000\<rparr>"
  shows "(\<exists>cache'. simulate_investments net today cache ''weekly'' DEFAULT_BTC_INVEST DEFAULT_ETH_INVEST
            = Inr (cache', 1020, 259, 2 / 100, 5 * (50 / 3000)))
       \<and> portfolio_calc (2 / 100, 5 * (50 / 3000), 1020, 259) \<lparr>bitcoin = 50000, ethereum = 3000\<rparr>
            = Inr \<lparr>btc_value = 1000, eth_value = 250, total_value = 1250, total_invested = 1279,
                   profit_loss = - 29, btc_percent = - 20 / 1020 * 100, eth_percent = - 9 / 259 * 100,
                   total_percent = - 29 / 1279 * 100\<rparr>
       \<and> portfolio net today cache [] cached api ''weekly''
            = Ok200 \<lparr>json_btc_invested = 1020, json_eth_invested = 259,
                     json_btc_held = 2 / 100, json_eth_held = 83333 / 1000000,
                     json_btc_value = 1000, json_eth_value = 250,
                     json_total_value = 1250, json_total_invested = 1279,
                     json_profit_loss = - 29,
                     json_btc_percent_change = - 196 / 100,
                     json_eth_percent_change = - 347 / 100,
                     json_total_percent_change = - 227 / 100\<rparr>"
proof -
  from scenario_simulation [OF range prices]
  obtain cache' where sim: "simulate_investments net today cache ''weekly'' DEFAULT_BTC_INVEST DEFAULT_ETH_INVEST
            = Inr (cache', 1020, 259, 2 / 100, 5 * (50 / 3000))"
    by (auto simp: DEFAULT_BTC_INVEST_def DEFAULT_ETH_INVEST_def)
  have calc: "portfolio_calc (2 / 100, 5 * (50 / 3000), 1020, 259) \<lparr>bitcoin = 50000, ethereum = 3000\<rparr>
            = Inr \<lparr>btc_value = 1000, eth_value = 250, total_value = 1250, total_invested = 1279,
                   profit_loss = - 29, btc_percent = - 20 / 1020 * 100, eth_percent = - 9 / 259 * 100,
                   total_percent = - 29 / 1279 * 100\<rparr>"
    by (simp add: portfolio_calc_def percent_if_positive_def py_div_def result_bind_def Let_def)
  have ledger: "apply_manual_transactions [] (2 / 100) (5 * (50 / 3000)) 1020 259
                  = (2 / 100, 5 * (50 / 3000), 1020, 259)"
    by (simp add: apply_manual_transactions_def)
  have json: "portfolio_jsonify (2 / 100, 5 * (50 / 3000), 1020, 259)
        \<lparr>btc_value = 1000, eth_value = 250, total_value = 1250, total_invested = 1279,
          profit_loss = - 29, btc_percent = - 20 / 1020 * 100, eth_percent = - 9 / 259 * 100,
          total_percent = - 29 / 1279 * 100\<rparr>
      = \<lparr>json_btc_invested = 1020, json_eth_invested = 259,
                     json_btc_held = 2 / 100, json_eth_held = 83333 / 1000000,
                     json_btc_value = 1000, json_eth_value = 250,
                     json_total_value = 1250, json_total_invested = 1279,
                     json_profit_loss = - 29,
                     json_btc_percent_change = - 196 / 100,
                     json_eth_percent_change = - 347 / 100,
                     json_total_percent_change = - 227 / 100\<rparr>"
    by (simp add: portfolio_jsonify_def py_round_def Let_def)
  have "portfolio_body net today cache [] cached api ''weekly'' = Inr (portfolio_jsonify (2 / 100, 5 * (50 / 3000), 1020, 259)
        \<lparr>btc_value = 1000, eth_value = 250, total_value = 1250, total_invested = 1279,
          profit_loss = - 29, btc_percent = - 20 / 1020 * 100, eth_percent = - 9 / 259 * 100,
          total_percent = - 29 / 1279 * 100\<rparr>)"
    unfolding portfolio_body_def sim
    by (simp only: result_bind_def sum.case prod.case Let_def ledger spot calc)
  then have "portfolio net today cache [] cached api ''weekly''
            = Ok200 \<lparr>json_btc_invested = 1020, json_eth_invested = 259,
                     json_btc_held = 2 / 100, json_eth_held = 83333 / 1000000,
                     json_btc_value = 1000, json_eth_value = 250,
                     json_total_value = 1250, json_total_invested = 1279,
                     json_profit_loss = - 29,
                     json_btc_percent_change = - 196 / 100,
                     json_eth_percent_change = - 347 / 100,
                     json_total_percent_change = - 227 / 100\<rparr>"
    by (simp only: portfolio_def json sum.case)
  with sim calc show ?thesis by blast
qed

text \<open>
  The scenario with the ten prices in the cache, no network, and the spot price
  source down, so that the hardcoded fallback pair 50000 / 3000 is used.
\<close>

theorem scenario_witness:
  "(\<exists>cache'. simulate_investments no_network (START_DATE + timedelta_weeks 9) flat_cache ''weekly''
        DEFAULT_BTC_INVEST DEFAULT_ETH_INVEST
            = Inr (cache', 1020, 259, 2 / 100, 5 * (50 / 3000)))
       \<and> portfolio no_network (START_DATE + timedelta_weeks 9) flat_cache [] None SpotFailed ''weekly''
            = Ok200 \<lparr>json_btc_invested = 1020, json_eth_invested = 259,
                     json_btc_held = 2 / 100, json_eth_held = 83333 / 1000000,
                     json_btc_value = 1000, json_eth_value = 250,
                     json_total_value = 1250, json_total_invested = 1279,
                     json_profit_loss = - 29,
                     json_btc_percent_change = - 196 / 100,
                     json_eth_percent_change = - 347 / 100,
                     json_total_percent_change = - 227 / 100\<rparr>"
proof -
  have r1: "START_DATE + timedelta_weeks 9 \<le> START_DATE + timedelta_weeks 9" by simp
  have r2: "START_DATE + timedelta_weeks 9 < START_DATE + timedelta_weeks 10"
    by (simp add: timedelta_weeks_def us_per_day_def)
  have p: "\<forall>k<10. price_at no_network flat_cache (START_DATE + timedelta_weeks (int k))
                   = Some \<lparr>bitcoin = 50000, ethereum = 3000\<rparr>"
    by (simp add: flat_prices)
  have s: "get_current_prices_cached None SpotFailed = \<lparr>bitcoin = 50000, ethereum = 3000\<rparr>"
    by (simp add: get_current_prices_cached_def)
  from scenario [OF r1 r2 p s] show ?thesis by blast
qed

section \<open>Properties of the realized profit and loss\<close>





section \<open>Properties of the risk analytics\<close>

lemma drawdown_loop_lower:
  "\<exists>r. drawdown_loop peak m hs = Inr r \<and> m \<le> r"
proof (induction hs arbitrary: peak m)
  case Nil
  show ?case by simp
next
  case (Cons p rest)
  let ?peak' = "if h_total_value p > peak then h_total_value p else peak"
  have "\<exists>d. (if ?peak' > 0 then py_div (?peak' - h_total_value p) ?peak' else Inr 0) = Inr d"
    by (simp add: py_div_def)
  then obtain d where d: "(if ?peak' > 0 then py_div (?peak' - h_total_value p) ?peak' else Inr 0) = Inr d"
    by blast
  from Cons [of ?peak' "max m d"] obtain r where
    "drawdown_loop ?peak' (max m d) rest = Inr r" "max m d \<le> r"
    by blast
  then show ?case
    using d by (auto simp: Let_def result_bind_def)
qed

lemma drawdown_loop_sorted:
  "sorted (map h_total_value hs) \<Longrightarrow> \<forall>h \<in> set hs. peak \<le> h_total_value h \<Longrightarrow>
     drawdown_loop peak 0 hs = Inr 0"
proof (induction hs arbitrary: peak)
  case Nil
  show ?case by simp
next
  case (Cons p rest)
  have le: "peak \<le> h_total_value p" using Cons.prems(2) by simp
  have rest: "drawdown_loop (h_total_value p) 0 rest = Inr 0"
    using Cons.prems(1) by (intro Cons.IH) simp_all
  show ?case
  proof (cases "peak < h_total_value p")
    case True
    with rest show ?thesis
      by (simp add: Let_def result_bind_def py_div_def)
  next
    case False
    with le have "peak = h_total_value p" by simp
    with rest show ?thesis
      by (simp add: Let_def result_bind_def py_div_def)
  qed
qed

text \<open>
  Claim C7. For every non-empty series of portfolio values the maximum drawdown that
  the running-peak loop computes is at least 0, and for every non-decreasing series it
  is exactly 0. No assumption on the sign of the first value is needed: while the peak
  is not positive the drawdown of a point is taken to be 0.
\<close>

theorem max_drawdown_bounds:
  "(history \<noteq> [] \<longrightarrow> (\<exists>m. max_drawdown_of history = Inr m \<and> 0 \<le> m))
   \<and> (history \<noteq> [] \<and> sorted (map h_total_value history) \<longrightarrow> max_drawdown_of history = Inr 0)"
proof (cases history)
  case Nil
  then show ?thesis by simp
next
  case (Cons first rest)
  have "\<exists>m. max_drawdown_of history = Inr m \<and> 0 \<le> m"
    using drawdown_loop_lower [of "h_total_value first" 0 history] Cons
    by (simp add: max_drawdown_of_def)
  moreover have "max_drawdown_of history = Inr 0" if "sorted (map h_total_value history)"
  proof -
    have "\<forall>h \<in> set history. h_total_value first \<le> h_total_value h"
      using that Cons by auto
    from drawdown_loop_sorted [OF that this] show ?thesis
      using Cons by (simp add: max_drawdown_of_def)
  qed
  ultimately show ?thesis by blast
qed

lemma var_index_in_range:
  assumes "20 \<le> n"
  shows "nat \<lfloor>real n * (5 / 100)\<rfloor> < n"
proof -
  have "real n * (5 / 100) < real n" using assms by simp
  then have "\<lfloor>real n * (5 / 100)\<rfloor> < int n"
    by (simp add: floor_less_iff)
  then show ?thesis by linarith
qed

text \<open>
  Claim C8. With fewer than 20 daily returns both \<^verbatim>\<open>var_95\<close> and \<^verbatim>\<open>var_95_dollar\<close> are 0.
  With \<open>n \<ge> 20\<close> returns the index \<open>\<lfloor>0.05 * n\<rfloor>\<close> is within the sorted list, \<^verbatim>\<open>var_95\<close> is
  the element of the ascending-sorted returns at that index, and \<^verbatim>\<open>var_95_dollar\<close> is
  \<^verbatim>\<open>var_95\<close> times the current total portfolio value.
\<close>

theorem value_at_risk_threshold:
  "(length daily_returns < 20 \<longrightarrow> value_at_risk daily_returns portfolio_value = Inr (0, 0))
   \<and> (20 \<le> length daily_returns \<longrightarrow>
        nat \<lfloor>real (length daily_returns) * (5 / 100)\<rfloor> < length (sort daily_returns)
        \<and> value_at_risk daily_returns portfolio_value =
            Inr (sort daily_returns ! nat \<lfloor>real (length daily_returns) * (5 / 100)\<rfloor>,
                 sort daily_returns ! nat \<lfloor>real (length daily_returns) * (5 / 100)\<rfloor> * portfolio_value))"
  using var_index_in_range [of "length daily_returns"]
  by (simp add: value_at_risk_def py_index_def result_bind_def)

text \<open>
  A series that rises to 120 and dips to 90 has maximum drawdown 1/4; a non-decreasing
  series has 0.
\<close>

theorem max_drawdown_bounds_witness:
  "dipping_history \<noteq> [] \<and> max_drawdown_of dipping_history = Inr (1 / 4)
   \<and> rising_history \<noteq> [] \<and> sorted (map h_total_value rising_history)
   \<and> max_drawdown_of rising_history = Inr 0"
proof -
  have s: "sorted (map h_total_value rising_history)" "rising_history \<noteq> []"
    by (simp_all add: rising_history_def)
  have d: "max_drawdown_of dipping_history = Inr (1 / 4)" "dipping_history \<noteq> []"
    by (simp_all add: dipping_history_def max_drawdown_of_def Let_def result_bind_def py_div_def)
  from max_drawdown_bounds [of rising_history] max_drawdown_bounds [of dipping_history] s d
  show ?thesis by simp
qed

text \<open>
  Two returns give (0, 0); twenty returns give the second smallest, here -0.05, and
  -62.5 on a portfolio worth 1250.
\<close>

theorem value_at_risk_threshold_witness:
  "length [1 / 100, - 2 / 100 :: real] < 20
   \<and> value_at_risk [1 / 100, - 2 / 100] 1250 = Inr (0, 0)
   \<and> 20 \<le> length twenty_returns
   \<and> value_at_risk twenty_returns 1250 = Inr (- 5 / 100, - 125 / 2)"
proof -
  have len: "length twenty_returns = 20"
    by (simp add: twenty_returns_def)
  have idx: "nat \<lfloor>real (20::nat) * (5 / 100)\<rfloor> = 1"
    by simp
  have srt: "sort twenty_returns ! Suc 0 = - 5 / 100"
    by (simp add: twenty_returns_def)
  from value_at_risk_threshold [of "[1 / 100, - 2 / 100]" 1250]
    value_at_risk_threshold [of twenty_returns 1250]
  show ?thesis
    by (simp add: len idx srt)
qed

section \<open>Properties of the analytics endpoints\<close>

lemma unbound_name: "resolve_global ''generate_portfolio_history'' = Inl (NameError ''generate_portfolio_history'')"
  by (simp add: resolve_global_def module_names_def)

lemma percent_if_positive_eq:
  "percent_if_positive gain invested = Inr (if invested > 0 then gain / invested * 100 else 0)"
  by (simp add: percent_if_positive_def py_div_def result_bind_def)

lemma div_if_positive_eq:
  "div_if_positive a b = Inr (if b > 0 then a / b else 0)"
  by (simp add: div_if_positive_def py_div_def)

lemma metrics_body_cases:
  "get_portfolio_metrics_body net today cache ledger api historical_data =
     (case simulate_investments net today cache ''weekly'' DEFAULT_BTC_INVEST DEFAULT_ETH_INVEST of
        Inl e \<Rightarrow> Inl e
      | Inr r \<Rightarrow>
          (case get_current_prices api of
             None \<Rightarrow> Inl TypeError
           | Some prices \<Rightarrow> Inl (NameError ''generate_portfolio_history'')))"
  by (simp add: get_portfolio_metrics_body_def result_bind_def subscript_prices_def
        percent_if_positive_eq unbound_name Let_def
      split: sum.splits prod.splits option.splits)

text \<open>
  Claim C10, as amended. \<^verbatim>\<open>generate_portfolio_history\<close> is bound nowhere, so whatever it
  would return, the handler of \<^verbatim>\<open>/analytics/benchmarks\<close> answers every request with status
  500 and the NameError, and the handler of \<^verbatim>\<open>/analytics/portfolio-metrics\<close> answers
  every request with status 500 and a caught exception: the NameError when the statements
  before the call complete (the cached prices are non-zero and a spot price is
  available), the TypeError of \<^verbatim>\<open>current_prices['bitcoin']\<close> when
  \<^verbatim>\<open>get_current_prices()\<close> returned \<^verbatim>\<open>None\<close>. Neither handler returns a success.
\<close>

theorem analytics_endpoints_never_succeed:
  "get_benchmark_comparison historical_data = Error500 (NameError ''generate_portfolio_history'')
   \<and> (\<exists>e. get_portfolio_metrics net today cache ledger api historical_data = Error500 e)
   \<and> (cache_ok cache \<and> get_current_prices api \<noteq> None \<longrightarrow>
        get_portfolio_metrics net today cache ledger api historical_data
          = Error500 (NameError ''generate_portfolio_history''))
   \<and> (cache_ok cache \<and> get_current_prices api = None \<longrightarrow>
        get_portfolio_metrics net today cache ledger api historical_data = Error500 TypeError)"
proof -
  have bench: "get_benchmark_comparison historical_data = Error500 (NameError ''generate_portfolio_history'')"
    by (simp add: get_benchmark_comparison_def get_benchmark_comparison_body_def unbound_name result_bind_def)
  have always: "\<exists>e. get_portfolio_metrics net today cache ledger api historical_data = Error500 e"
    by (simp add: get_portfolio_metrics_def metrics_body_cases split: sum.splits option.splits)
  have sim: "\<exists>r. simulate_investments net today cache ''weekly'' DEFAULT_BTC_INVEST DEFAULT_ETH_INVEST = Inr r"
    if "cache_ok cache"
  proof -
    have "\<forall>j < steps_left today ''weekly'' START_DATE.
            usable (price_at net cache (START_DATE + int j * interval_of ''weekly''))"
      using that by (simp add: cache_ok_usable)
    from simulate_ok [OF this] show ?thesis by blast
  qed
  have name: "get_portfolio_metrics net today cache ledger api historical_data
          = Error500 (NameError ''generate_portfolio_history'')"
    if "cache_ok cache" "get_current_prices api \<noteq> None"
    using sim [OF that(1)] that(2)
    by (auto simp: get_portfolio_metrics_def metrics_body_cases)
  have type: "get_portfolio_metrics net today cache ledger api historical_data = Error500 TypeError"
    if "cache_ok cache" "get_current_prices api = None"
    using sim [OF that(1)] that(2)
    by (auto simp: get_portfolio_metrics_def metrics_body_cases)
  from bench always name type show ?thesis by blast
qed

text \<open>
  The claim as stated has both handlers raise NameError on every request. With the spot
  price source down, \<^verbatim>\<open>/analytics/portfolio-metrics\<close> raises TypeError before it
  reaches the unbound name.
\<close>

theorem analytics_endpoints_counterexample:
  "get_portfolio_metrics no_network START_DATE flat_cache [] SpotFailed [] = Error500 TypeError
   \<and> get_portfolio_metrics no_network START_DATE flat_cache [] SpotFailed []
       \<noteq> Error500 (NameError ''generate_portfolio_history'')"
proof -
  have "\<forall>j < steps_left START_DATE ''weekly'' START_DATE.
            usable (price_at no_network flat_cache (START_DATE + int j * interval_of ''weekly''))"
    using flat_cache_ok by (simp add: cache_ok_usable)
  from simulate_ok [OF this]
  obtain r where "simulate_investments no_network START_DATE flat_cache ''weekly''
      DEFAULT_BTC_INVEST DEFAULT_ETH_INVEST = Inr r"
    by blast
  then have "get_portfolio_metrics no_network START_DATE flat_cache [] SpotFailed [] = Error500 TypeError"
    by (simp add: get_portfolio_metrics_def metrics_body_cases get_current_prices_def)
  then show ?thesis by simp
qed

text \<open>
  Both cases of the amended statement, on a cache with non-zero prices.
\<close>

theorem analytics_endpoints_never_succeed_witness:
  "get_benchmark_comparison rising_history = Error500 (NameError ''generate_portfolio_history'')
   \<and> cache_ok flat_cache
   \<and> get_current_prices (SpotReply 200 (Some \<lparr>bitcoin = 50000, ethereum = 3000\<rparr>)) \<noteq> None
   \<and> get_portfolio_metrics no_network START_DATE flat_cache []
        (SpotReply 200 (Some \<lparr>bitcoin = 50000, ethereum = 3000\<rparr>)) rising_history
        = Error500 (NameError ''generate_portfolio_history'')
   \<and> get_current_prices SpotFailed = None
   \<and> get_portfolio_metrics no_network START_DATE flat_cache [] SpotFailed rising_history
        = Error500 TypeError"
proof -
  have a: "get_current_prices (SpotReply 200 (Some \<lparr>bitcoin = 50000, ethereum = 3000\<rparr>)) \<noteq> None"
    and b: "get_current_prices SpotFailed = None"
    by (simp_all add: get_current_prices_def)
  from analytics_endpoints_never_succeed [of rising_history no_network START_DATE flat_cache "[]"
      "SpotReply 200 (Some \<lparr>bitcoin = 50000, ethereum = 3000\<rparr>)"]
    analytics_endpoints_never_succeed [of rising_history no_network START_DATE flat_cache "[]" SpotFailed]
    flat_cache_ok a b
  show ?thesis by simp
qed

section \<open>Properties of the valuation and the performance metrics\<close>

lemma py_div_nonzero: "b \<noteq> 0 \<Longrightarrow> py_div a b = Inr (a / b)"
  by (simp add: py_div_def)

lemma annualized_returns:
  "\<exists>p. annualized current_value invested years_invested = Inr p"
proof (cases "years_invested > 0 \<and> invested > 0")
  case False
  then show ?thesis by (auto simp: annualized_def)
next
  case True
  then have nz: "invested \<noteq> 0" "years_invested \<noteq> 0" and pos: "0 < 1 / years_invested"
    by simp_all
  have "\<exists>p. py_pow (current_value / invested) (1 / years_invested) = Inr p"
    using pos by (auto simp: py_pow_def)
  then show ?thesis
    using True nz by (auto simp: annualized_def py_div_def result_bind_def)
qed

lemma performance_calc_returns:
  "\<exists>v. performance_calc now (bh, eh, bi, ei) prices = Inr v
     \<and> pm_total_roi_percent v =
          (if 0 < bi + ei
           then ((bh * bitcoin prices + eh * ethereum prices) - (bi + ei)) / (bi + ei) * 100 else 0)
     \<and> pm_btc_roi_percent v = (if 0 < bi then (bh * bitcoin prices - bi) / bi * 100 else 0)
     \<and> pm_eth_roi_percent v = (if 0 < ei then (eh * ethereum prices - ei) / ei * 100 else 0)
     \<and> pm_total_invested v = bi + ei
     \<and> pm_total_current_value v = bh * bitcoin prices + eh * ethereum prices"
proof -
  define years where "years = real_of_int ((now - START_DATE) div us_per_day) / (36525 / 100)"
  have yrs: "py_div (real_of_int ((now - START_DATE) div us_per_day)) (36525 / 100) = Inr years"
    unfolding years_def by (rule py_div_nonzero) simp
  obtain p where p: "annualized (bh * bitcoin prices + eh * ethereum prices) (bi + ei) years = Inr p"
    using annualized_returns by blast
  have "performance_calc now (bh, eh, bi, ei) prices =
      Inr \<lparr>pm_total_invested = bi + ei,
           pm_total_current_value = bh * bitcoin prices + eh * ethereum prices,
           pm_total_profit_loss = bh * bitcoin prices + eh * ethereum prices - (bi + ei),
           pm_total_roi_percent =
             (if 0 < bi + ei
              then (bh * bitcoin prices + eh * ethereum prices - (bi + ei)) / (bi + ei) * 100 else 0),
           pm_btc_current_value = bh * bitcoin prices, pm_eth_current_value = eh * ethereum prices,
           pm_btc_profit_loss = bh * bitcoin prices - bi, pm_eth_profit_loss = eh * ethereum prices - ei,
           pm_btc_roi_percent = (if 0 < bi then (bh * bitcoin prices - bi) / bi * 100 else 0),
           pm_eth_roi_percent = (if 0 < ei then (eh * ethereum prices - ei) / ei * 100 else 0),
           pm_days_invested = (now - START_DATE) div us_per_day,
           pm_annualized_return = p,
           pm_btc_allocation =
             (if 0 < bh * bitcoin prices + eh * ethereum prices
              then bh * bitcoin prices / (bh * bitcoin prices + eh * ethereum prices) * 100 else 0),
           pm_eth_allocation =
             (if 0 < bh * bitcoin prices + eh * ethereum prices
              then eh * ethereum prices / (bh * bitcoin prices + eh * ethereum prices) * 100 else 0),
           pm_avg_btc_price = (if 0 < bh then bi / bh else 0),
           pm_avg_eth_price = (if 0 < eh then ei / eh else 0)\<rparr>"
    by (simp only: performance_calc_def prod.case Let_def percent_if_positive_eq div_if_positive_eq
          result_bind_def sum.case yrs p)
  then show ?thesis by simp
qed

lemma portfolio_calc_eq:
  "portfolio_calc (bh, eh, bi, ei) prices =
     Inr \<lparr>btc_value = bh * bitcoin prices, eth_value = eh * ethereum prices,
          total_value = bh * bitcoin prices + eh * ethereum prices,
          total_invested = bi + ei,
          profit_loss = bh * bitcoin prices + eh * ethereum prices - (bi + ei),
          btc_percent = (if 0 < bi then (bh * bitcoin prices - bi) / bi * 100 else 0),
          eth_percent = (if 0 < ei then (eh * ethereum prices - ei) / ei * 100 else 0),
          total_percent =
            (if 0 < bi + ei
             then (bh * bitcoin prices + eh * ethereum prices - (bi + ei)) / (bi + ei) * 100 else 0)\<rparr>"
  by (simp only: portfolio_calc_def prod.case Let_def percent_if_positive_eq result_bind_def sum.case)

text \<open>
  Claim C2. The percentage expression \<^verbatim>\<open>(gain / invested * 100) if invested > 0 else 0\<close>,
  which every handler writes inline, is \<open>percent_if_positive\<close>. With \<open>invested > 0\<close> it is
  \<open>(held * spot_price - invested) / invested * 100\<close>, with \<open>invested \<le> 0\<close> (a negative
  cost basis after manual sells included) it is exactly 0, and it never raises. The
  per-asset and total percent changes of \<^verbatim>\<open>/portfolio\<close> and the per-asset and total ROI
  of \<^verbatim>\<open>calculate_performance_metrics\<close> are these values; the response of
  \<^verbatim>\<open>/portfolio\<close> carries them rounded to two decimals.
\<close>

theorem percent_change_convention:
  "(0 < invested \<longrightarrow>
      percent_if_positive (held * spot_price - invested) invested
        = Inr ((held * spot_price - invested) / invested * 100))
   \<and> (invested \<le> 0 \<longrightarrow> percent_if_positive (held * spot_price - invested) invested = Inr 0)
   \<and> (\<exists>v. portfolio_calc (bh, eh, bi, ei) prices = Inr v
         \<and> btc_percent v = (if 0 < bi then (bh * bitcoin prices - bi) / bi * 100 else 0)
         \<and> eth_percent v = (if 0 < ei then (eh * ethereum prices - ei) / ei * 100 else 0)
         \<and> total_percent v =
             (if 0 < bi + ei
              then (bh * bitcoin prices + eh * ethereum prices - (bi + ei)) / (bi + ei) * 100 else 0)
         \<and> json_btc_percent_change (portfolio_jsonify (bh, eh, bi, ei) v) = py_round (btc_percent v) 2
         \<and> json_eth_percent_change (portfolio_jsonify (bh, eh, bi, ei) v) = py_round (eth_percent v) 2
         \<and> json_total_percent_change (portfolio_jsonify (bh, eh, bi, ei) v) = py_round (total_percent v) 2)
   \<and> (\<exists>v. performance_calc now (bh, eh, bi, ei) prices = Inr v
         \<and> pm_btc_roi_percent v = (if 0 < bi then (bh * bitcoin prices - bi) / bi * 100 else 0)
         \<and> pm_eth_roi_percent v = (if 0 < ei then (eh * ethereum prices - ei) / ei * 100 else 0)
         \<and> pm_total_roi_percent v =
             (if 0 < bi + ei
              then (bh * bitcoin prices + eh * ethereum prices - (bi + ei)) / (bi + ei) * 100 else 0))"
proof -
  have one: "0 < invested \<longrightarrow>
      percent_if_positive (held * spot_price - invested) invested
        = Inr ((held * spot_price - invested) / invested * 100)"
    and two: "invested \<le> 0 \<longrightarrow> percent_if_positive (held * spot_price - invested) invested = Inr 0"
    by (simp_all add: percent_if_positive_eq)
  have three: "\<exists>v. portfolio_calc (bh, eh, bi, ei) prices = Inr v
         \<and> btc_percent v = (if 0 < bi then (bh * bitcoin prices - bi) / bi * 100 else 0)
         \<and> eth_percent v = (if 0 < ei then (eh * ethereum prices - ei) / ei * 100 else 0)
         \<and> total_percent v =
             (if 0 < bi + ei
              then (bh * bitcoin prices + eh * ethereum prices - (bi + ei)) / (bi + ei) * 100 else 0)
         \<and> json_btc_percent_change (portfolio_jsonify (bh, eh, bi, ei) v) = py_round (btc_percent v) 2
         \<and> json_eth_percent_change (portfolio_jsonify (bh, eh, bi, ei) v) = py_round (eth_percent v) 2
         \<and> json_total_percent_change (portfolio_jsonify (bh, eh, bi, ei) v) = py_round (total_percent v) 2"
    by (simp add: portfolio_calc_eq portfolio_jsonify_def)
  have four: "\<exists>v. performance_calc now (bh, eh, bi, ei) prices = Inr v
         \<and> pm_btc_roi_percent v = (if 0 < bi then (bh * bitcoin prices - bi) / bi * 100 else 0)
         \<and> pm_eth_roi_percent v = (if 0 < ei then (eh * ethereum prices - ei) / ei * 100 else 0)
         \<and> pm_total_roi_percent v =
             (if 0 < bi + ei
              then (bh * bitcoin prices + eh * ethereum prices - (bi + ei)) / (bi + ei) * 100 else 0)"
    using performance_calc_returns [of now bh eh bi ei prices] by auto
  from one two three four show ?thesis by blast
qed

text \<open>
  A positive, a negative and a zero cost basis.
\<close>

theorem percent_change_convention_witness:
  "percent_if_positive (2 / 100 * 50000 - 1020) 1020 = Inr ((2 / 100 * 50000 - 1020) / 1020 * 100)
   \<and> percent_if_positive (3 * 50000 - (- 5)) (- 5) = Inr 0
   \<and> percent_if_positive (3 * 50000 - 0) 0 = Inr 0
   \<and> (\<exists>v. portfolio_calc (2 / 100, 1 / 12, 1020, - 5) \<lparr>bitcoin = 50000, ethereum = 3000\<rparr> = Inr v
         \<and> btc_percent v = - 100 / 51 \<and> eth_percent v = 0 \<and> total_percent v = 4700 / 203)"
proof -
  note inst = percent_change_convention [of 1020 "2 / 100" 50000 "2 / 100" "1 / 12" 1020 "- 5"
      "\<lparr>bitcoin = 50000, ethereum = 3000\<rparr>" 0]
    percent_change_convention [of "- 5" 3 50000 "2 / 100" "1 / 12" 1020 "- 5"
      "\<lparr>bitcoin = 50000, ethereum = 3000\<rparr>" 0]
    percent_change_convention [of 0 3 50000 "2 / 100" "1 / 12" 1020 "- 5"
      "\<lparr>bitcoin = 50000, ethereum = 3000\<rparr>" 0]
  from inst(1) have a: "percent_if_positive (2 / 100 * 50000 - 1020) 1020 = Inr ((2 / 100 * 50000 - 1020) / 1020 * 100)"
    by simp
  from inst(2) have b: "percent_if_positive (3 * 50000 - (- 5)) (- 5) = Inr 0"
    by simp
  from inst(3) have c: "percent_if_positive (3 * 50000 - 0) 0 = Inr 0"
    by simp
  from inst(1) have d: "\<exists>v. portfolio_calc (2 / 100, 1 / 12, 1020, - 5) \<lparr>bitcoin = 50000, ethereum = 3000\<rparr> = Inr v
         \<and> btc_percent v = - 100 / 51 \<and> eth_percent v = 0 \<and> total_percent v = 4700 / 203"
    by auto
  from a b c d show ?thesis by blast
qed

section \<open>Absence of division by zero\<close>

lemma daily_returns_returns: "\<exists>rs. daily_returns_of history = Inr rs"
proof (induction history rule: daily_returns_of.induct)
  case (1 p q later)
  show ?case
  proof (cases "h_total_value p > 0")
    case True
    with 1(1) obtain more where "daily_returns_of (q # later) = Inr more"
      by (auto simp: py_div_def)
    with True show ?thesis
      by (simp add: py_div_def result_bind_def)
  next
    case False
    with 1(2) show ?thesis by simp
  qed
qed simp_all

lemma py_mean_returns: "xs \<noteq> [] \<Longrightarrow> py_mean xs = Inr (sum_list xs / real (length xs))"
  by (simp add: py_mean_def py_div_def)

lemma py_stdev_returns: "1 < length xs \<Longrightarrow> \<exists>s. py_stdev xs = Inr s"
proof -
  assume len: "1 < length xs"
  then have "xs \<noteq> []" by auto
  then show ?thesis
    using len by (simp add: py_stdev_def py_mean_returns py_div_def result_bind_def)
qed

lemma max_drawdown_returns: "history \<noteq> [] \<Longrightarrow> \<exists>m. max_drawdown_of history = Inr m"
proof (cases history)
  case Nil
  assume "history \<noteq> []"
  with Nil show ?thesis by simp
next
  case (Cons first rest)
  from drawdown_loop_lower [of "h_total_value first" 0 history] Cons
  show ?thesis by (auto simp: max_drawdown_of_def)
qed

lemma value_at_risk_returns: "\<exists>v d. value_at_risk rs worth = Inr (v, d)"
  using var_index_in_range [of "length rs"]
  by (simp add: value_at_risk_def py_index_def result_bind_def)

lemma guarded_sharpe_returns:
  "\<exists>s. (if v > 0 then py_div a v else Inr 0) = Inr s"
  by (simp add: py_div_def)

lemma portfolio_analytics_returns: "\<exists>r. portfolio_analytics pd history = Inr r"
proof (cases "history = [] \<or> length history < 2")
  case True
  then show ?thesis by (auto simp: portfolio_analytics_def)
next
  case False
  then have ne: "history \<noteq> []" and len: "\<not> length history < 2" by auto
  obtain rs where rs: "daily_returns_of history = Inr rs"
    using daily_returns_returns by blast
  show ?thesis
  proof (cases "rs = []")
    case True
    with ne len rs show ?thesis
      by (simp add: portfolio_analytics_def result_bind_def)
  next
    case nonempty: False
    obtain vol where vol: "(if length rs > 1 then py_stdev rs else Inr 0) = Inr vol"
      using py_stdev_returns [of rs] by (cases "length rs > 1") auto
    obtain sh where sh: "(if vol * sqrt 365 > 0
        then py_div (sum_list rs / real (length rs) * 365 - 2 / 100) (vol * sqrt 365) else Inr 0) = Inr sh"
      using guarded_sharpe_returns by blast
    obtain md where md: "max_drawdown_of history = Inr md"
      using max_drawdown_returns [OF ne] by blast
    obtain v d where var: "value_at_risk rs (pd_total_value pd) = Inr (v, d)"
      using value_at_risk_returns by blast
    show ?thesis
      unfolding portfolio_analytics_def
      by (simp only: ne len rs nonempty if_False if_True not_False_eq_True result_bind_def sum.case
            py_mean_returns [OF nonempty] vol Let_def sh md div_if_positive_eq var prod.case)
         blast
  qed
qed

lemma benchmark_comparison_returns: "\<exists>r. benchmark_comparison history = Inr r"
  by (simp add: benchmark_comparison_def Let_def div_if_positive_eq py_div_def result_bind_def)

lemma record_week_returns: "\<exists>acc'. record_week d tv pv acc = Inr acc'"
  by (cases pv) (simp_all add: record_week_def py_div_def result_bind_def)

lemma simulate_cache_ok:
  assumes "cache_ok cache"
  shows "\<exists>cache' r. simulate_investments net today cache f a b = Inr (cache', r) \<and> cache_ok cache'"
proof -
  have "\<forall>j < steps_left today f START_DATE.
          usable (price_at net cache (START_DATE + int j * interval_of f))"
    using assms by (simp add: cache_ok_usable)
  from simulate_ok [OF this, of a b] assms show ?thesis by blast
qed

lemma week_round_returns:
  assumes "cache_ok cache"
  shows "\<exists>cache' pv' acc'. week_round net ledger cache d pv acc = Inr (cache', pv', acc')
           \<and> cache_ok cache'"
proof -
  from simulate_cache_ok [OF assms]
  obtain cache1 bi0 ei0 bh0 eh0 where
    sim: "simulate_investments net d cache ''weekly'' DEFAULT_BTC_INVEST DEFAULT_ETH_INVEST
            = Inr (cache1, bi0, ei0, bh0, eh0)"
    and ok1: "cache_ok cache1"
    by (metis prod_cases4)
  obtain bh eh bi ei where h: "apply_manual_transactions ledger bh0 eh0 bi0 ei0 = (bh, eh, bi, ei)"
    by (metis prod_cases4)
  obtain p cache2 where g: "get_price_on_date net cache1 d = (p, cache2)"
    by fastforce
  have ok2: "cache_ok cache2"
    using get_price_cache_ok [OF ok1, of net d] g by simp
  show ?thesis
  proof (cases p)
    case None
    with sim h g ok2 show ?thesis
      by (simp add: week_round_def result_bind_def)
  next
    case (Some price_data)
    obtain acc' where "record_week d (bh * bitcoin price_data + eh * ethereum price_data) pv acc = Inr acc'"
      using record_week_returns by blast
    with Some sim h g ok2 show ?thesis
      by (simp add: week_round_def result_bind_def Let_def)
  qed
qed

lemma weekly_loop_returns:
  "cache_ok cache \<Longrightarrow> \<exists>r. weekly_loop net now ledger cache d pv acc = Inr r"
proof (induction net now ledger cache d pv acc rule: weekly_loop.induct)
  case (1 net now ledger cache d pv acc)
  show ?case
  proof (cases "d \<le> now")
    case False
    then show ?thesis by (simp add: weekly_loop.simps)
  next
    case True
    from week_round_returns [OF "1.prems"]
    obtain cache' pv' acc' where
      step: "week_round net ledger cache d pv acc = Inr (cache', pv', acc')" and ok: "cache_ok cache'"
      by blast
    from "1.IH" [OF True step refl refl ok]
    obtain r where "weekly_loop net now ledger cache' (d + timedelta_weeks 1) pv' acc' = Inr r"
      by blast
    with True step show ?thesis
      by (simp add: weekly_loop.simps [of net now ledger cache d pv acc])
  qed
qed

lemma dca_vs_lump_sum_returns:
  "usable start_prices \<Longrightarrow> \<exists>r. dca_vs_lump_sum_of start_prices current_prices ti tcv = Inr r"
  by (cases start_prices)
     (simp_all add: dca_vs_lump_sum_of_def usable_def py_div_def result_bind_def Let_def
        percent_if_positive_eq)

lemma weekly_average_returns:
  "\<exists>w. (if days > 0
         then result_bind (py_div (real_of_int days) 7) (\<lambda>weeks_invested.
              result_bind (py_div ti weeks_invested) (\<lambda>q. Inr (py_round q 2)))
         else Inr 0) = Inr w"
  by (simp add: py_div_def result_bind_def)

lemma performance_result_no_zero_division:
  "performance_result h current_prices v dca weekly \<noteq> Inl ZeroDivisionError"
proof -
  obtain bh eh bi ei where h: "h = (bh, eh, bi, ei)"
    by (metis prod_cases4)
  show ?thesis
  proof (cases "pm_annualized_return v")
    case (PyFloat x)
    show ?thesis
      by (cases "pm_days_invested v > 0")
         (simp_all add: performance_result_def h round_num_def PyFloat result_bind_def py_div_def)
  next
    case PyComplex
    show ?thesis
      by (simp add: performance_result_def h round_num_def PyComplex result_bind_def)
  qed
qed

lemma performance_body_no_zero_division:
  assumes "cache_ok cache"
  shows "calculate_performance_metrics_body net now today cache ledger api \<noteq> Inl ZeroDivisionError"
proof -
  from simulate_cache_ok [OF assms]
  obtain cache1 bi0 ei0 bh0 eh0 where
    sim: "simulate_investments net today cache ''weekly'' DEFAULT_BTC_INVEST DEFAULT_ETH_INVEST
            = Inr (cache1, bi0, ei0, bh0, eh0)"
    and ok1: "cache_ok cache1"
    by (metis prod_cases4)
  obtain bh eh bi ei where h: "apply_manual_transactions ledger bh0 eh0 bi0 ei0 = (bh, eh, bi, ei)"
    by (metis prod_cases4)
  show ?thesis
  proof (cases "get_current_prices api")
    case None
    with sim show ?thesis
      by (simp add: calculate_performance_metrics_body_def result_bind_def Let_def)
  next
    case (Some current_prices)
    obtain v where v: "performance_calc now (bh, eh, bi, ei) current_prices = Inr v"
      using performance_calc_returns by blast
    obtain start_prices cache2 where g: "get_price_on_date net cache1 START_DATE = (start_prices, cache2)"
      by fastforce
    have "usable start_prices"
      using cache_ok_usable [OF ok1, of net START_DATE] g by (simp add: price_at_def)
    then obtain dca where dca: "dca_vs_lump_sum_of start_prices current_prices
        (pm_total_invested v) (pm_total_current_value v) = Inr dca"
      using dca_vs_lump_sum_returns by blast
    have "calculate_performance_metrics_body net now today cache ledger api =
        result_bind (performance_result (bh, eh, bi, ei) current_prices v dca
                       (calculate_weekly_performance net now ledger cache2))
          (\<lambda>r. Inr (Some r))"
      unfolding calculate_performance_metrics_body_def
      by (simp only: sim result_bind_def sum.case prod.case Let_def h Some option.case v g dca)
    then show ?thesis
      using performance_result_no_zero_division
        [of "(bh, eh, bi, ei)" current_prices v dca "calculate_weekly_performance net now ledger cache2"]
      by (simp add: result_bind_def split: sum.splits)
  qed
qed

lemma portfolio_body_returns:
  assumes "cache_ok cache"
  shows "\<exists>j. portfolio_body net today cache ledger cached api f = Inr j"
proof -
  from simulate_cache_ok [OF assms]
  obtain cache1 bi0 ei0 bh0 eh0 where
    sim: "simulate_investments net today cache f DEFAULT_BTC_INVEST DEFAULT_ETH_INVEST
            = Inr (cache1, bi0, ei0, bh0, eh0)"
    by (metis prod_cases4)
  obtain bh eh bi ei where h: "apply_manual_transactions ledger bh0 eh0 bi0 ei0 = (bh, eh, bi, ei)"
    by (metis prod_cases4)
  show ?thesis
    unfolding portfolio_body_def
    by (simp only: sim result_bind_def sum.case prod.case Let_def h portfolio_calc_eq) blast
qed

lemma zero_price_divides:
  "simulate_investments no_network START_DATE zero_price_cache ''weekly'' 100 50 = Inl ZeroDivisionError"
proof -
  have "get_price_on_date no_network zero_price_cache START_DATE
          = (Some \<lparr>bitcoin = 0, ethereum = 3000\<rparr>, zero_price_cache)"
    using date_str_step [of 0]
    by (simp add: get_price_on_date_def zero_price_cache_def timedelta_weeks_def)
  then have "sim_step no_network (interval_of ''weekly'') 100 50 zero_price_cache initial_state
               = Inl ZeroDivisionError"
    by (simp add: sim_step_def initial_state_def buy_btc_def py_div_def result_bind_def)
  then have "sim_loop no_network START_DATE ''weekly'' 100 50 zero_price_cache initial_state
               = Inl ZeroDivisionError"
    by (simp add: sim_loop.simps [of _ _ _ _ _ _ initial_state]) (simp add: initial_state_def)
  then show ?thesis
    by (simp add: simulate_investments_def result_bind_def)
qed

text \<open>
  Claim C9. Every division of the modelled code goes through \<open>py_div\<close>, the only source
  of ZeroDivisionError besides zero to a negative power. When the prices stored in the
  price cache are non-zero (prices that come from the adapter are tested for truth
  before they are used or stored), the simulator, the valuator, the weekly performance
  loop, the performance metrics and the portfolio-metrics handler never raise
  ZeroDivisionError. The valuation, the performance figures, the risk analytics and the
  benchmark comparison divide only under their own guards and need no assumption.
  \<open>zero_price_divides\<close> shows that the assumption on the cache cannot be dropped.
\<close>

theorem no_division_by_zero:
  "(cache_ok cache \<longrightarrow>
      simulate_investments net today cache frequency btc_amount eth_amount \<noteq> Inl ZeroDivisionError
      \<and> portfolio_body net today cache ledger cached api frequency \<noteq> Inl ZeroDivisionError
      \<and> weekly_loop net now ledger cache date previous_value performance_data \<noteq> Inl ZeroDivisionError
      \<and> calculate_performance_metrics_body net now today cache ledger api \<noteq> Inl ZeroDivisionError
      \<and> get_portfolio_metrics_body net today cache ledger api historical_data \<noteq> Inl ZeroDivisionError)
   \<and> portfolio_calc (bh, eh, bi, ei) prices \<noteq> Inl ZeroDivisionError
   \<and> performance_calc now (bh, eh, bi, ei) prices \<noteq> Inl ZeroDivisionError
   \<and> performance_result (bh, eh, bi, ei) prices v dca weekly \<noteq> Inl ZeroDivisionError
   \<and> portfolio_analytics pd historical_data \<noteq> Inl ZeroDivisionError
   \<and> benchmark_comparison historical_data \<noteq> Inl ZeroDivisionError"
proof -
  have guarded: "portfolio_calc (bh, eh, bi, ei) prices \<noteq> Inl ZeroDivisionError"
    "performance_calc now (bh, eh, bi, ei) prices \<noteq> Inl ZeroDivisionError"
    "performance_result (bh, eh, bi, ei) prices v dca weekly \<noteq> Inl ZeroDivisionError"
    "portfolio_analytics pd historical_data \<noteq> Inl ZeroDivisionError"
    "benchmark_comparison historical_data \<noteq> Inl ZeroDivisionError"
    using performance_calc_returns [of now bh eh bi ei prices]
      portfolio_analytics_returns [of pd historical_data]
      benchmark_comparison_returns [of historical_data]
    by (auto simp: portfolio_calc_eq performance_result_no_zero_division)
  have priced: "simulate_investments net today cache frequency btc_amount eth_amount \<noteq> Inl ZeroDivisionError"
      "portfolio_body net today cache ledger cached api frequency \<noteq> Inl ZeroDivisionError"
      "weekly_loop net now ledger cache date previous_value performance_data \<noteq> Inl ZeroDivisionError"
      "calculate_performance_metrics_body net now today cache ledger api \<noteq> Inl ZeroDivisionError"
      "get_portfolio_metrics_body net today cache ledger api historical_data \<noteq> Inl ZeroDivisionError"
    if ok: "cache_ok cache"
  proof -
    show "simulate_investments net today cache frequency btc_amount eth_amount \<noteq> Inl ZeroDivisionError"
      using simulate_cache_ok [OF ok, of net today frequency btc_amount eth_amount] by auto
    show "portfolio_body net today cache ledger cached api frequency \<noteq> Inl ZeroDivisionError"
      using portfolio_body_returns [OF ok, of net today ledger cached api frequency] by auto
    show "weekly_loop net now ledger cache date previous_value performance_data \<noteq> Inl ZeroDivisionError"
      using weekly_loop_returns [OF ok, of net now ledger date previous_value performance_data] by auto
    show "calculate_performance_metrics_body net now today cache ledger api \<noteq> Inl ZeroDivisionError"
      using ok by (rule performance_body_no_zero_division)
    show "get_portfolio_metrics_body net today cache ledger api historical_data \<noteq> Inl ZeroDivisionError"
      using simulate_cache_ok [OF ok, of net today "''weekly''" DEFAULT_BTC_INVEST DEFAULT_ETH_INVEST]
      by (auto simp: metrics_body_cases split: option.splits)
  qed
  from guarded priced show ?thesis by blast
qed

text \<open>
  The statement on the ten-week cache, with a manual ledger and a history that dips.
\<close>

theorem no_division_by_zero_witness:
  "cache_ok flat_cache
   \<and> simulate_investments no_network (START_DATE + timedelta_weeks 9) flat_cache ''weekly'' 100 50
        \<noteq> Inl ZeroDivisionError
   \<and> calculate_performance_metrics_body no_network (START_DATE + timedelta_weeks 9)
        (START_DATE + timedelta_weeks 9) flat_cache example_ledger
        (SpotReply 200 (Some \<lparr>bitcoin = 50000, ethereum = 3000\<rparr>)) \<noteq> Inl ZeroDivisionError
   \<and> portfolio_analytics
        \<lparr>pd_btc_invested = 0, pd_eth_invested = 0, pd_total_value = 0, pd_total_profit_loss = 0,
         pd_total_profit_loss_percent = 0\<rparr> dipping_history \<noteq> Inl ZeroDivisionError"
  using no_division_by_zero [where cache = flat_cache and net = no_network
      and today = "START_DATE + timedelta_weeks 9" and now = "START_DATE + timedelta_weeks 9"
      and frequency = "''weekly''" and btc_amount = 100 and eth_amount = 50
      and ledger = example_ledger
      and api = "SpotReply 200 (Some \<lparr>bitcoin = 50000, ethereum = 3000\<rparr>)"
      and historical_data = dipping_history
      and pd = "\<lparr>pd_btc_invested = 0, pd_eth_invested = 0, pd_total_value = 0,
                 pd_total_profit_loss = 0, pd_total_profit_loss_percent = 0\<rparr>"]
    flat_cache_ok
  by simp

end
